theory Spec2Isabelle
  imports Complex_Main "HOL-Library.Sublist"
begin

section \<open>Text operations used by the label aggregator\<close>

text \<open>
  Raw labels are modelled as ASCII strings (the label vocabulary of the source domain:
  CONFIRMED, CANDIDATE, APC, CP, KP, FALSE POSITIVE, FA, REFUTED). On ASCII text
  \<^verbatim>\<open>str.upper\<close> changes exactly the letters a to z, and \<^verbatim>\<open>str.strip\<close> removes
  the leading and trailing characters with code 9 to 13, 28 to 31 and 32.
\<close>

definition upper_char :: "char \<Rightarrow> char" where
  "upper_char c =
     (case map_of (zip ''abcdefghijklmnopqrstuvwxyz'' ''ABCDEFGHIJKLMNOPQRSTUVWXYZ'') c of
        Some u \<Rightarrow> u
      | None \<Rightarrow> c)"

definition upper :: "string \<Rightarrow> string" where
  "upper s = map upper_char s"

definition is_space :: "char \<Rightarrow> bool" where
  "is_space c =
     (let n = (of_char c :: nat) in (9 \<le> n \<and> n \<le> 13) \<or> (28 \<le> n \<and> n \<le> 32))"

definition strip :: "string \<Rightarrow> string" where
  "strip s = rev (dropWhile is_space (rev (dropWhile is_space s)))"

text \<open>\<^verbatim>\<open>needle in hay\<close> on strings: some suffix of the haystack starts with the needle.\<close>

fun starts_with :: "string \<Rightarrow> string \<Rightarrow> bool" where
  "starts_with [] hay = True"
| "starts_with (n # ns) [] = False"
| "starts_with (n # ns) (h # hs) = (n = h \<and> starts_with ns hs)"

fun str_in :: "string \<Rightarrow> string \<Rightarrow> bool" where
  "str_in needle [] = starts_with needle []"
| "str_in needle (h # hs) = (starts_with needle (h # hs) \<or> str_in needle hs)"

section \<open>The category decision function\<close>

text \<open>
  \<^verbatim>\<open>map_to_main_category\<close> (src/app.py, lines 35 to 57): the label is upper-cased and
  stripped, then tested against the three keyword groups in turn; a label that matches
  none of them is returned as it came.
\<close>

definition map_to_main_category :: "string \<Rightarrow> string" where
  "map_to_main_category label =
     (let label_upper = strip (upper label) in
      if str_in ''CONFIRMED'' label_upper then ''Confirmed Planet''
      else if list_ex (\<lambda>keyword. str_in keyword label_upper)
                [''CANDIDATE'', ''APC'', ''CP'', ''KP''] then ''Candidate Planet''
      else if list_ex (\<lambda>keyword. str_in keyword label_upper)
                [''FALSE'', ''FA'', ''REFUTED'', ''NOT''] then ''False Positive (Not a Planet)''
      else label)"

text \<open>
  The decision function as section 4.3 of the specification words it, to be compared
  with the one above. It is written without the functions of the source model:
  upper-casing moves the character codes 97 to 122 down by 32, trimming cuts the run of
  spaces at each end, and "contains" is being a contiguous part of the text. The rules
  are the four of the specification, in its priority order.
\<close>

definition spec_upper_char :: "char \<Rightarrow> char" where
  "spec_upper_char c =
     (if 97 \<le> (of_char c :: nat) \<and> (of_char c :: nat) \<le> 122
      then char_of ((of_char c :: nat) - 32) else c)"

definition spec_trim :: "string \<Rightarrow> string" where
  "spec_trim s =
     (let t = drop (length (takeWhile is_space s)) s
      in take (length t - length (takeWhile is_space (rev t))) t)"

definition spec_category :: "string \<Rightarrow> string" where
  "spec_category label =
     (let u = spec_trim (map spec_upper_char label) in
      if sublist ''CONFIRMED'' u then ''Confirmed Planet''
      else if sublist ''CANDIDATE'' u \<or> sublist ''APC'' u \<or> sublist ''CP'' u \<or> sublist ''KP'' u
        then ''Candidate Planet''
      else if sublist ''FALSE'' u \<or> sublist ''FA'' u \<or> sublist ''REFUTED'' u \<or> sublist ''NOT'' u
        then ''False Positive (Not a Planet)''
      else label)"

section \<open>Values, exceptions and responses\<close>

text \<open>
  A Python float is a finite value (carried as a real: rounding is not modelled), an
  infinity or NaN. A request body is what \<^verbatim>\<open>request.get_json()\<close> hands back: a JSON
  value, whose objects are the items of a dict in insertion order.
\<close>

datatype pyfloat = Fin real | PosInf | NegInf | NaN

datatype json =
    JNull
  | JBool bool
  | JInt int
  | JFloat pyfloat
  | JStr string
  | JArr "json list"
  | JObj "(string \<times> json) list"

text \<open>
  The exception classes the handlers of \<^verbatim>\<open>predict\<close> tell apart: \<open>ValueError\<close> has a
  handler of its own, \<open>AttributeError\<close> is caught around the probability step, every
  other class ends in the handler for \<^verbatim>\<open>Exception\<close>.
\<close>

datatype exn_class = ValueError | AttributeError | KeyError | TypeError | OverflowError | OtherError

text \<open>
  An error message is a literal, or an f-string made of a literal prefix and
  \<^verbatim>\<open>str(e)\<close> of the exception caught, which is kept unrendered.
\<close>

datatype message = Text string | Formatted string exn_class

datatype confidence =
    Detailed_Grouped "(string \<times> real) list" "(string \<times> real) list"
  | Per_Class "(string \<times> real) list"

datatype body =
    Error message
  | Result string "pyfloat \<times> pyfloat \<times> pyfloat" "confidence option"

record http_response =
  body :: body
  status :: nat

text \<open>The line printed at line 178: the decoded label and the category it maps to.\<close>

datatype printed = Detailed_Prediction string string

section \<open>The loaded artifacts\<close>

text \<open>
  The three module-level objects, each \<open>None\<close> when its file was not found. Their
  methods are parameters: a call returns a value or raises. A classifier without
  \<^verbatim>\<open>predict_proba\<close> has \<open>None\<close> in that field. \<open>clf_predict\<close> stands for
  \<^verbatim>\<open>model.predict(features)[0]\<close>, \<open>clf_predict_proba\<close> for
  \<^verbatim>\<open>model.predict_proba(features)[0]\<close>, the scaler for its \<^verbatim>\<open>transform\<close> and the
  label encoder for \<^verbatim>\<open>inverse_transform([i])[0]\<close>.
\<close>

record classifier =
  clf_predict :: "pyfloat list \<Rightarrow> exn_class + int"
  clf_predict_proba :: "(pyfloat list \<Rightarrow> exn_class + real list) option"

record artifacts =
  model :: "classifier option"
  scaler :: "(pyfloat list \<Rightarrow> exn_class + pyfloat list) option"
  label_encoder :: "(int \<Rightarrow> exn_class + string) option"

text \<open>\<^verbatim>\<open>CLASS_LABELS\<close> as line 93 sets it when no label encoder was loaded.\<close>

definition CLASS_LABELS :: "(int \<times> string) list" where
  "CLASS_LABELS =
     [(0, ''False Positive (Not a Planet)''), (1, ''Candidate Planet''), (2, ''Confirmed Planet'')]"

section \<open>Python built-ins on request data\<close>

text \<open>\<^verbatim>\<open>not data\<close> is the negation of the truth value of \<open>data\<close>.\<close>

fun truthy :: "json \<Rightarrow> bool" where
  "truthy JNull = False"
| "truthy (JBool b) = b"
| "truthy (JInt i) = (i \<noteq> 0)"
| "truthy (JFloat x) = (x \<noteq> Fin 0)"
| "truthy (JStr s) = (s \<noteq> [])"
| "truthy (JArr xs) = (xs \<noteq> [])"
| "truthy (JObj kvs) = (kvs \<noteq> [])"

text \<open>
  \<^verbatim>\<open>field in data\<close>: a key of a dict, an element of a list, a substring of a string;
  any other value is not iterable.
\<close>

fun field_in :: "string \<Rightarrow> json \<Rightarrow> exn_class + bool" where
  "field_in field (JObj kvs) = Inr (field \<in> set (map fst kvs))"
| "field_in field (JArr xs) = Inr (JStr field \<in> set xs)"
| "field_in field (JStr s) = Inr (str_in field s)"
| "field_in field other = Inl TypeError"

text \<open>\<^verbatim>\<open>data[field]\<close> with a string \<open>field\<close>.\<close>

fun subscript :: "json \<Rightarrow> string \<Rightarrow> exn_class + json" where
  "subscript (JObj kvs) field =
     (case map_of kvs field of None \<Rightarrow> Inl KeyError | Some v \<Rightarrow> Inr v)"
| "subscript other field = Inl TypeError"

text \<open>
  Double arithmetic. A finite double is carried as the real number it denotes.
  \<open>round_double\<close> rounds a real to the nearest number with 53 significant bits, ties to
  the even one; \<open>float_add\<close> is the \<^verbatim>\<open>+\<close> of two doubles. The exponent range is not
  bounded: overflow to infinity is left out (the sums here are sums of probabilities),
  and a sum of two doubles in the subnormal range is exact here as it is in the machine.
\<close>

definition round_half_even :: "real \<Rightarrow> int" where
  "round_half_even x =
     (let n = \<lfloor>x\<rfloor>; r = x - of_int n in
      if r < 1 / 2 then n else if 1 / 2 < r then n + 1 else if even n then n else n + 1)"

definition round_double :: "real \<Rightarrow> real" where
  "round_double x =
     (if x = 0 then 0
      else let ulp = 2 powr of_int (\<lfloor>log 2 \<bar>x\<bar>\<rfloor> - 52)
           in of_int (round_half_even (x / ulp)) * ulp)"

definition float_add :: "real \<Rightarrow> real \<Rightarrow> real" where
  "float_add a b = round_double (a + b)"

text \<open>
  \<^verbatim>\<open>float(v)\<close>. Parsing a string is the parameter \<open>float_of_str\<close> (\<open>None\<close> where
  Python raises); an integer is rounded to a double, and one too large overflows.
\<close>

definition float_overflow :: int where
  "float_overflow = 2 ^ 1024 - 2 ^ 970"

fun py_float :: "(string \<Rightarrow> pyfloat option) \<Rightarrow> json \<Rightarrow> exn_class + pyfloat" where
  "py_float float_of_str (JBool b) = Inr (Fin (if b then 1 else 0))"
| "py_float float_of_str (JInt i) =
     (if \<bar>i\<bar> < float_overflow then Inr (Fin (round_double (real_of_int i)))
      else Inl OverflowError)"
| "py_float float_of_str (JFloat x) = Inr x"
| "py_float float_of_str (JStr s) =
     (case float_of_str s of None \<Rightarrow> Inl ValueError | Some x \<Rightarrow> Inr x)"
| "py_float float_of_str other = Inl TypeError"

text \<open>\<^verbatim>\<open>x <= 0\<close> on floats; every comparison with NaN is false.\<close>

fun le_zero :: "pyfloat \<Rightarrow> bool" where
  "le_zero (Fin r) = (r \<le> 0)"
| "le_zero NegInf = True"
| "le_zero PosInf = False"
| "le_zero NaN = False"

text \<open>\<^verbatim>\<open>d[k] = v\<close> on a dict kept as its items: a key keeps its first position.\<close>

fun dict_set :: "'k \<Rightarrow> 'v \<Rightarrow> ('k \<times> 'v) list \<Rightarrow> ('k \<times> 'v) list" where
  "dict_set k v [] = [(k, v)]"
| "dict_set k v ((k', v') # kvs) =
     (if k = k' then (k, v) # kvs else (k', v') # dict_set k v kvs)"

section \<open>Control flow inside the try block\<close>

text \<open>A step of the handler raises, returns a response early, or goes on with a value.\<close>

datatype 'a flow = Raised exn_class | Returned http_response | Value 'a

fun and_then :: "'a flow \<Rightarrow> ('a \<Rightarrow> 'b flow) \<Rightarrow> 'b flow" where
  "and_then (Raised e) f = Raised e"
| "and_then (Returned r) f = Returned r"
| "and_then (Value x) f = f x"

fun raising :: "exn_class + 'a \<Rightarrow> 'a flow" where
  "raising (Inl e) = Raised e"
| "raising (Inr x) = Value x"

definition respond :: "nat \<Rightarrow> body \<Rightarrow> http_response" where
  "respond code b = \<lparr>body = b, status = code\<rparr>"

section \<open>Input validation (lines 139 to 161)\<close>

fun check_required :: "string list \<Rightarrow> json \<Rightarrow> unit flow" where
  "check_required [] data = Value ()"
| "check_required (field # rest) data =
     and_then (raising (field_in field data)) (\<lambda>present.
       if \<not> present
       then Returned (respond 400 (Error (Text (''Missing required field: '' @ field))))
       else check_required rest data)"

definition required_fields :: "string list" where
  "required_fields = [''orbital_period'', ''transit_duration'', ''planetary_radius'']"

definition read_field :: "(string \<Rightarrow> pyfloat option) \<Rightarrow> json \<Rightarrow> string \<Rightarrow> pyfloat flow" where
  "read_field float_of_str data field =
     and_then (raising (subscript data field)) (\<lambda>v. raising (py_float float_of_str v))"

definition read_features ::
  "(string \<Rightarrow> pyfloat option) \<Rightarrow> exn_class + json \<Rightarrow> (pyfloat \<times> pyfloat \<times> pyfloat) flow" where
  "read_features float_of_str request =
     and_then (raising request) (\<lambda>data.
       if \<not> truthy data then Returned (respond 400 (Error (Text ''No data provided'')))
       else
         and_then (check_required required_fields data) (\<lambda>_.
         and_then (read_field float_of_str data ''orbital_period'') (\<lambda>orbital_period.
         and_then (read_field float_of_str data ''transit_duration'') (\<lambda>transit_duration.
         and_then (read_field float_of_str data ''planetary_radius'') (\<lambda>planetary_radius.
           if le_zero orbital_period
           then Returned (respond 400 (Error (Text ''Orbital period must be positive'')))
           else if le_zero transit_duration
           then Returned (respond 400 (Error (Text ''Transit duration must be positive'')))
           else if le_zero planetary_radius
           then Returned (respond 400 (Error (Text ''Planetary radius must be positive'')))
           else Value (orbital_period, transit_duration, planetary_radius))))))"

section \<open>Label decoding and confidence (lines 174 to 214)\<close>

definition decode_prediction ::
  "(int \<Rightarrow> exn_class + string) option \<Rightarrow> int \<Rightarrow> (exn_class + string) \<times> printed list" where
  "decode_prediction encoder prediction =
     (case encoder of
        Some inverse_transform \<Rightarrow>
          (case inverse_transform prediction of
             Inl e \<Rightarrow> (Inl e, [])
           | Inr detailed_label \<Rightarrow>
               (let prediction_label = map_to_main_category detailed_label
                in (Inr prediction_label, [Detailed_Prediction detailed_label prediction_label])))
      | None \<Rightarrow>
          (Inr (case map_of CLASS_LABELS prediction of Some l \<Rightarrow> l | None \<Rightarrow> ''Unknown''), []))"

text \<open>
  The dict comprehension of line 188: labels are decoded in index order, and a label
  decoded twice keeps its place and takes the later probability.
\<close>

fun detailed_confidence ::
  "(int \<Rightarrow> exn_class + string) \<Rightarrow> nat \<Rightarrow> real list \<Rightarrow> (string \<times> real) list
     \<Rightarrow> exn_class + (string \<times> real) list" where
  "detailed_confidence inverse_transform i [] acc = Inr acc"
| "detailed_confidence inverse_transform i (prob # probs) acc =
     (case inverse_transform (int i) of
        Inl e \<Rightarrow> Inl e
      | Inr label \<Rightarrow> detailed_confidence inverse_transform (Suc i) probs (dict_set label prob acc))"

text \<open>
  The loop of line 200: \<^verbatim>\<open>grouped_confidence[main_category] += prob\<close> reads the bucket
  before it writes it, so a category that is not a key raises \<open>KeyError\<close>.
\<close>

fun group_loop ::
  "(string \<times> real) list \<Rightarrow> (string \<times> real) list \<Rightarrow> exn_class + (string \<times> real) list" where
  "group_loop [] grouped = Inr grouped"
| "group_loop ((label, prob) # items) grouped =
     (let main_category = map_to_main_category label in
      case map_of grouped main_category of
        None \<Rightarrow> Inl KeyError
      | Some v \<Rightarrow> group_loop items (dict_set main_category (float_add v prob) grouped))"

text \<open>The three buckets as line 194 initialises them.\<close>

definition grouped_init :: "(string \<times> real) list" where
  "grouped_init =
     [(''Confirmed Planet'', 0), (''Candidate Planet'', 0), (''False Positive (Not a Planet)'', 0)]"

definition grouped_confidence :: "(string \<times> real) list \<Rightarrow> exn_class + (string \<times> real) list" where
  "grouped_confidence detailed = group_loop detailed grouped_init"

text \<open>
  For stating how much mass a bucket should hold: the exact sum of the probabilities of
  the labels that the decision function sends to the bucket \<open>k\<close>.
\<close>

definition bucket_mass :: "string \<Rightarrow> (string \<times> real) list \<Rightarrow> real" where
  "bucket_mass k items =
     sum_list (map snd (filter (\<lambda>item. map_to_main_category (fst item) = k) items))"

text \<open>The dict comprehension of line 209, keyed by \<^verbatim>\<open>CLASS_LABELS[i]\<close>.\<close>

fun class_confidence ::
  "nat \<Rightarrow> real list \<Rightarrow> (string \<times> real) list \<Rightarrow> exn_class + (string \<times> real) list" where
  "class_confidence i [] acc = Inr acc"
| "class_confidence i (prob # probs) acc =
     (case map_of CLASS_LABELS (int i) of
        None \<Rightarrow> Inl KeyError
      | Some label \<Rightarrow> class_confidence (Suc i) probs (dict_set label prob acc))"

definition probability_step ::
  "classifier \<Rightarrow> (int \<Rightarrow> exn_class + string) option \<Rightarrow> pyfloat list \<Rightarrow> exn_class + confidence" where
  "probability_step clf encoder features =
     (case clf_predict_proba clf of
        None \<Rightarrow> Inl AttributeError
      | Some predict_proba \<Rightarrow>
          (case predict_proba features of
             Inl e \<Rightarrow> Inl e
           | Inr probabilities \<Rightarrow>
               (case encoder of
                  Some inverse_transform \<Rightarrow>
                    (case detailed_confidence inverse_transform 0 probabilities [] of
                       Inl e \<Rightarrow> Inl e
                     | Inr detailed \<Rightarrow>
                         (case grouped_confidence detailed of
                            Inl e \<Rightarrow> Inl e
                          | Inr grouped \<Rightarrow> Inr (Detailed_Grouped detailed grouped)))
                | None \<Rightarrow>
                    (case class_confidence 0 probabilities [] of
                       Inl e \<Rightarrow> Inl e
                     | Inr per_class \<Rightarrow> Inr (Per_Class per_class)))))"

text \<open>The inner try: only \<open>AttributeError\<close> is caught, and leaves no confidence.\<close>

definition get_confidence ::
  "classifier \<Rightarrow> (int \<Rightarrow> exn_class + string) option \<Rightarrow> pyfloat list
     \<Rightarrow> exn_class + confidence option" where
  "get_confidence clf encoder features =
     (case probability_step clf encoder features of
        Inl AttributeError \<Rightarrow> Inr None
      | Inl e \<Rightarrow> Inl e
      | Inr c \<Rightarrow> Inr (Some c))"

text \<open>\<^verbatim>\<open>if confidence:\<close> holds for a dict that is not empty.\<close>

fun confidence_truthy :: "confidence option \<Rightarrow> bool" where
  "confidence_truthy None = False"
| "confidence_truthy (Some (Detailed_Grouped detailed grouped)) = True"
| "confidence_truthy (Some (Per_Class per_class)) = (per_class \<noteq> [])"

section \<open>The request handler\<close>

text \<open>Line 167: the features are scaled when a scaler is loaded.\<close>

definition apply_scaler ::
  "(pyfloat list \<Rightarrow> exn_class + pyfloat list) option \<Rightarrow> pyfloat list \<Rightarrow> exn_class + pyfloat list" where
  "apply_scaler sc features =
     (case sc of None \<Rightarrow> Inr features | Some transform \<Rightarrow> transform features)"

text \<open>Lines 163 to 229: scaling, prediction, decoding, confidence and the response.\<close>

definition infer ::
  "classifier \<Rightarrow> artifacts \<Rightarrow> pyfloat \<times> pyfloat \<times> pyfloat
     \<Rightarrow> (exn_class + http_response) \<times> printed list" where
  "infer clf art input =
     (case apply_scaler (scaler art) [fst input, fst (snd input), snd (snd input)] of
        Inl e \<Rightarrow> (Inl e, [])
      | Inr features \<Rightarrow>
          (case clf_predict clf features of
             Inl e \<Rightarrow> (Inl e, [])
           | Inr prediction \<Rightarrow>
               (let (decoded, lines) = decode_prediction (label_encoder art) prediction in
                case decoded of
                  Inl e \<Rightarrow> (Inl e, lines)
                | Inr prediction_label \<Rightarrow>
                    (case get_confidence clf (label_encoder art) features of
                       Inl e \<Rightarrow> (Inl e, lines)
                     | Inr confidence \<Rightarrow>
                         (Inr (respond 200
                                (Result prediction_label input
                                   (if confidence_truthy confidence then confidence else None))),
                          lines)))))"

text \<open>The body of the outer try, after the check that a model is loaded.\<close>

definition try_block ::
  "(string \<Rightarrow> pyfloat option) \<Rightarrow> classifier \<Rightarrow> artifacts \<Rightarrow> exn_class + json
     \<Rightarrow> (exn_class + http_response) \<times> printed list" where
  "try_block float_of_str clf art request =
     (case read_features float_of_str request of
        Raised e \<Rightarrow> (Inl e, [])
      | Returned r \<Rightarrow> (Inr r, [])
      | Value input \<Rightarrow> infer clf art input)"

text \<open>
  \<^verbatim>\<open>predict\<close> (lines 113 to 234). The request is the outcome of
  \<^verbatim>\<open>request.get_json()\<close>; the result is the response and what was printed.
\<close>

definition predict ::
  "(string \<Rightarrow> pyfloat option) \<Rightarrow> artifacts \<Rightarrow> exn_class + json \<Rightarrow> http_response \<times> printed list" where
  "predict float_of_str art request =
     (case model art of
        None \<Rightarrow>
          (respond 500 (Error (Text ''Model not loaded. Please ensure model.pkl exists.'')), [])
      | Some clf \<Rightarrow>
          (let (outcome, lines) = try_block float_of_str clf art request in
           case outcome of
             Inr r \<Rightarrow> (r, lines)
           | Inl ValueError \<Rightarrow>
               (respond 400 (Error (Formatted ''Invalid input value: '' ValueError)), lines)
           | Inl e \<Rightarrow>
               (respond 500 (Error (Formatted ''Prediction error: '' e)), lines)))"

text \<open>\<^verbatim>\<open>PERFORMANCE_METRICS\<close> (lines 60 to 71), which \<^verbatim>\<open>/performance\<close> serves.\<close>

record performance_metrics =
  accuracy :: real
  precision :: real
  recall :: real
  f1_score :: real
  confusion_matrix :: "nat list list"
  class_names :: "string list"

definition PERFORMANCE_METRICS :: performance_metrics where
  "PERFORMANCE_METRICS =
     \<lparr>accuracy = 94 / 100, precision = 92 / 100, recall = 91 / 100, f1_score = 915 / 1000,
      confusion_matrix = [[450, 30, 20], [25, 380, 45], [15, 35, 400]],
      class_names = [''False Positive'', ''Candidate'', ''Confirmed'']\<rparr>"

text \<open>
  The module between requests: the three artifacts, \<^verbatim>\<open>CLASS_LABELS\<close> (the classes of
  the label encoder when one was loaded, the three static labels otherwise), the metrics
  and what has been printed so far.
\<close>

record app =
  loaded :: artifacts
  class_labels :: "(int \<times> string) list"
  metrics :: performance_metrics
  stdout :: "printed list"

text \<open>
  \<^verbatim>\<open>predict\<close> once more, as the view function runs inside the module: a state
  transformer that reads each global from the state where the source reads it
  (\<^verbatim>\<open>model\<close> at lines 133, 171 and 184, \<^verbatim>\<open>scaler\<close> at 167, \<^verbatim>\<open>label_encoder\<close>
  at 174 and 187, \<^verbatim>\<open>CLASS_LABELS\<close> at 180 and 210) and appends the line printed at 178
  to the standard output. A method call on a \<^verbatim>\<open>model\<close> that is \<open>None\<close> raises
  \<open>AttributeError\<close>.
\<close>

definition decode_step :: "int \<Rightarrow> app \<Rightarrow> (exn_class + string) \<times> app" where
  "decode_step prediction s =
     (case label_encoder (loaded s) of
        Some inverse_transform \<Rightarrow>
          (case inverse_transform prediction of
             Inl e \<Rightarrow> (Inl e, s)
           | Inr detailed_label \<Rightarrow>
               (let prediction_label = map_to_main_category detailed_label
                in (Inr prediction_label,
                    s\<lparr>stdout := stdout s @ [Detailed_Prediction detailed_label prediction_label]\<rparr>)))
      | None \<Rightarrow>
          (Inr (case map_of (class_labels s) prediction of Some l \<Rightarrow> l | None \<Rightarrow> ''Unknown''), s))"

fun labelled_confidence ::
  "(int \<times> string) list \<Rightarrow> nat \<Rightarrow> real list \<Rightarrow> (string \<times> real) list
     \<Rightarrow> exn_class + (string \<times> real) list" where
  "labelled_confidence labels i [] acc = Inr acc"
| "labelled_confidence labels i (prob # probs) acc =
     (case map_of labels (int i) of
        None \<Rightarrow> Inl KeyError
      | Some label \<Rightarrow> labelled_confidence labels (Suc i) probs (dict_set label prob acc))"

definition probability_read :: "pyfloat list \<Rightarrow> app \<Rightarrow> exn_class + confidence" where
  "probability_read features s =
     (case model (loaded s) of
        None \<Rightarrow> Inl AttributeError
      | Some clf \<Rightarrow>
     (case clf_predict_proba clf of
        None \<Rightarrow> Inl AttributeError
      | Some predict_proba \<Rightarrow>
          (case predict_proba features of
             Inl e \<Rightarrow> Inl e
           | Inr probabilities \<Rightarrow>
               (case label_encoder (loaded s) of
                  Some inverse_transform \<Rightarrow>
                    (case detailed_confidence inverse_transform 0 probabilities [] of
                       Inl e \<Rightarrow> Inl e
                     | Inr detailed \<Rightarrow>
                         (case grouped_confidence detailed of
                            Inl e \<Rightarrow> Inl e
                          | Inr grouped \<Rightarrow> Inr (Detailed_Grouped detailed grouped)))
                | None \<Rightarrow>
                    (case labelled_confidence (class_labels s) 0 probabilities [] of
                       Inl e \<Rightarrow> Inl e
                     | Inr per_class \<Rightarrow> Inr (Per_Class per_class))))))"

definition confidence_read :: "pyfloat list \<Rightarrow> app \<Rightarrow> exn_class + confidence option" where
  "confidence_read features s =
     (case probability_read features s of
        Inl AttributeError \<Rightarrow> Inr None
      | Inl e \<Rightarrow> Inl e
      | Inr c \<Rightarrow> Inr (Some c))"

definition run_request ::
  "(string \<Rightarrow> pyfloat option) \<Rightarrow> exn_class + json \<Rightarrow> app \<Rightarrow> (exn_class + http_response) \<times> app" where
  "run_request float_of_str request s =
     (case read_features float_of_str request of
        Raised e \<Rightarrow> (Inl e, s)
      | Returned r \<Rightarrow> (Inr r, s)
      | Value input \<Rightarrow>
          (case apply_scaler (scaler (loaded s)) [fst input, fst (snd input), snd (snd input)] of
             Inl e \<Rightarrow> (Inl e, s)
           | Inr features \<Rightarrow>
               (case model (loaded s) of
                  None \<Rightarrow> (Inl AttributeError, s)
                | Some clf \<Rightarrow>
                    (case clf_predict clf features of
                       Inl e \<Rightarrow> (Inl e, s)
                     | Inr prediction \<Rightarrow>
                         (let (decoded, s') = decode_step prediction s in
                          case decoded of
                            Inl e \<Rightarrow> (Inl e, s')
                          | Inr prediction_label \<Rightarrow>
                              (case confidence_read features s' of
                                 Inl e \<Rightarrow> (Inl e, s')
                               | Inr confidence \<Rightarrow>
                                   (Inr (respond 200
                                          (Result prediction_label input
                                             (if confidence_truthy confidence then confidence
                                              else None))),
                                    s')))))))"

definition predict_request ::
  "(string \<Rightarrow> pyfloat option) \<Rightarrow> exn_class + json \<Rightarrow> app \<Rightarrow> http_response \<times> app" where
  "predict_request float_of_str request s =
     (if model (loaded s) = None
      then (respond 500 (Error (Text ''Model not loaded. Please ensure model.pkl exists.'')), s)
      else
        (let (outcome, s') = run_request float_of_str request s in
         case outcome of
           Inr r \<Rightarrow> (r, s')
         | Inl ValueError \<Rightarrow>
             (respond 400 (Error (Formatted ''Invalid input value: '' ValueError)), s')
         | Inl e \<Rightarrow> (respond 500 (Error (Formatted ''Prediction error: '' e)), s')))"

section \<open>Concrete artifacts and requests for the examples\<close>

text \<open>
  A label encoder over six raw labels in sorted order (it raises \<open>ValueError\<close> on an
  index it has not seen), a classifier with and one without probability output, and a
  request body with three positive numbers.
\<close>

definition example_encoder :: "int \<Rightarrow> exn_class + string" where
  "example_encoder i =
     (case map_of [(0, ''APC''), (1, ''CP''), (2, ''FA''), (3, ''FP''), (4, ''KP''), (5, ''PC'')] i of
        Some label \<Rightarrow> Inr label
      | None \<Rightarrow> Inl ValueError)"

definition example_classifier :: "int \<Rightarrow> real list \<Rightarrow> classifier" where
  "example_classifier prediction probabilities =
     \<lparr>clf_predict = (\<lambda>features. Inr prediction),
      clf_predict_proba = Some (\<lambda>features. Inr probabilities)\<rparr>"

definition example_classifier_no_proba :: "int \<Rightarrow> classifier" where
  "example_classifier_no_proba prediction =
     \<lparr>clf_predict = (\<lambda>features. Inr prediction), clf_predict_proba = None\<rparr>"

definition example_request :: "exn_class + json" where
  "example_request =
     Inr (JObj [(''orbital_period'', JFloat (Fin (21 / 2))),
                (''transit_duration'', JFloat (Fin (21 / 10))),
                (''planetary_radius'', JFloat (Fin (6 / 5)))])"

definition example_input :: "pyfloat \<times> pyfloat \<times> pyfloat" where
  "example_input = (Fin (21 / 2), Fin (21 / 10), Fin (6 / 5))"

definition example_app :: app where
  "example_app =
     \<lparr>loaded = \<lparr>model = Some (example_classifier_no_proba 1), scaler = None,
                 label_encoder = Some example_encoder\<rparr>,
      class_labels = [(0, ''APC''), (1, ''CP''), (2, ''FA''), (3, ''FP''), (4, ''KP''), (5, ''PC'')],
      metrics = PERFORMANCE_METRICS, stdout = []\<rparr>"

section \<open>Substrings, upper-casing and trimming\<close>

lemma starts_with_prefix: "starts_with n h = prefix n h"
  by (induction n h rule: starts_with.induct) auto

lemma str_in_sublist: "str_in n h = sublist n h"
  by (induction h) (auto simp: starts_with_prefix sublist_Cons_right)

lemma sublist_dropWhile:
  assumes "sublist k u" "k \<noteq> []" "\<not> P (hd k)"
  shows "sublist k (dropWhile P u)"
proof -
  from assms(1) obtain ps ss where u: "u = ps @ k @ ss" by (auto simp: sublist_def)
  show ?thesis
  proof (cases "\<forall>x\<in>set ps. P x")
    case True
    then have "dropWhile P u = dropWhile P (k @ ss)" by (simp add: u)
    also have "\<dots> = k @ ss" using assms(2,3) by (cases k) auto
    finally show ?thesis by (simp add: sublist_def) (metis append_Nil)
  next
    case False
    then have "dropWhile P u = dropWhile P ps @ k @ ss"
      by (auto simp: u dropWhile_append1)
    then show ?thesis by (auto simp: sublist_def)
  qed
qed

text \<open>Trimming keeps every part of the text that neither starts nor ends with a space.\<close>

lemma sublist_strip:
  assumes "sublist k u" "k \<noteq> []" "\<not> is_space (hd k)" "\<not> is_space (last k)"
  shows "sublist k (strip u)"
proof -
  have "sublist k (dropWhile is_space u)" using assms by (simp add: sublist_dropWhile)
  then have "sublist (rev k) (rev (dropWhile is_space u))" by (simp add: sublist_rev)
  then have "sublist (rev k) (dropWhile is_space (rev (dropWhile is_space u)))"
    using assms by (intro sublist_dropWhile) (auto simp: hd_rev)
  then have "sublist (rev (rev k)) (rev (dropWhile is_space (rev (dropWhile is_space u))))"
    by (subst sublist_rev)
  then show ?thesis by (simp add: strip_def)
qed

lemma sublist_upper:
  assumes "sublist k u"
  shows "sublist (upper k) (upper u)"
proof -
  from assms obtain ps ss where "u = ps @ k @ ss" by (auto simp: sublist_def)
  then have "upper u = upper ps @ upper k @ upper ss" by (simp add: upper_def)
  then show ?thesis unfolding sublist_def by blast
qed

section \<open>The model's text operations are upper-casing and trimming\<close>

lemma eq_char_of_iff: "c = char_of (n::nat) \<longleftrightarrow> take_bit 8 n = of_char c"
  using char_of_eq_iff [of n c] by auto

lemma letters:
  "\<forall>c \<in> set ''abcdefghijklmnopqrstuvwxyz''. upper_char c = spec_upper_char c"
  by (simp add: upper_char_def spec_upper_char_def eq_char_of_iff)

lemma range_letters:
  assumes "97 \<le> (of_char c :: nat)" "(of_char c :: nat) \<le> 122"
  shows "c \<in> set ''abcdefghijklmnopqrstuvwxyz''"
proof -
  have "(of_char c :: nat) \<in> of_char ` set ''abcdefghijklmnopqrstuvwxyz''"
    using assms by (simp, arith)
  then obtain d where "d \<in> set ''abcdefghijklmnopqrstuvwxyz''" "(of_char c :: nat) = of_char d"
    by blast
  then show ?thesis by simp
qed

lemma not_letter:
  "c \<notin> set ''abcdefghijklmnopqrstuvwxyz'' \<Longrightarrow> upper_char c = c"
  by (auto simp: upper_char_def split: option.splits dest: map_of_SomeD)

lemma upper_char_spec: "upper_char c = spec_upper_char c"
proof (cases "c \<in> set ''abcdefghijklmnopqrstuvwxyz''")
  case True
  then show ?thesis using letters by blast
next
  case False
  then have "\<not> (97 \<le> (of_char c :: nat) \<and> (of_char c :: nat) \<le> 122)"
    using range_letters by blast
  then have "spec_upper_char c = c" unfolding spec_upper_char_def by (rule if_not_P)
  then show ?thesis using False by (simp add: not_letter)
qed

lemma rev_dropWhile_rev:
  "rev (dropWhile P (rev t)) = take (length t - length (takeWhile P (rev t))) t"
proof -
  have "rev (dropWhile P (rev t)) = rev (drop (length (takeWhile P (rev t))) (rev t))"
    by (simp only: dropWhile_eq_drop)
  also have "\<dots> = take (length t - length (takeWhile P (rev t))) t"
    by (simp add: rev_drop)
  finally show ?thesis .
qed

lemma strip_spec: "strip s = spec_trim s"
proof -
  have "dropWhile is_space s = drop (length (takeWhile is_space s)) s"
    by (rule dropWhile_eq_drop)
  then show ?thesis
    by (simp only: strip_def spec_trim_def Let_def rev_dropWhile_rev)
qed


section \<open>Properties of the category decision function\<close>

lemma confirmed_wins:
  assumes "sublist ''CONFIRMED'' label"
  shows "map_to_main_category label = ''Confirmed Planet''"
proof -
  have "sublist (upper ''CONFIRMED'') (upper label)" using assms by (rule sublist_upper)
  then have "sublist ''CONFIRMED'' (upper label)" by (simp add: upper_def upper_char_def)
  then have "sublist ''CONFIRMED'' (strip (upper label))"
    by (rule sublist_strip) (simp_all add: is_space_def)
  then show ?thesis by (simp add: map_to_main_category_def str_in_sublist)
qed

lemma upper_spec: "upper s = map spec_upper_char s"
  by (simp add: upper_def upper_char_spec)

lemma confirmed_wins_any_case:
  assumes "sublist ''CONFIRMED'' (map spec_upper_char label)"
  shows "map_to_main_category label = ''Confirmed Planet''"
proof -
  have "sublist ''CONFIRMED'' (upper label)" using assms by (simp add: upper_spec)
  then have "sublist ''CONFIRMED'' (strip (upper label))"
    by (rule sublist_strip) (simp_all add: is_space_def)
  then show ?thesis by (simp add: map_to_main_category_def str_in_sublist)
qed

text \<open>
  Claim C2. The decision function of the source is the one the specification words: the
  label is upper-cased and trimmed, then "CONFIRMED" gives Confirmed Planet, else one of
  "CANDIDATE", "APC", "CP", "KP" gives Candidate Planet, else one of "FALSE", "FA",
  "REFUTED", "NOT" gives False Positive (Not a Planet), else the label is returned
  unchanged. A label that contains both "CONFIRMED" and "FALSE" is a Confirmed Planet,
  in whatever letter case the two words are written.
\<close>

theorem map_to_main_category_priority:
  "map_to_main_category label = spec_category label
   \<and> (sublist ''CONFIRMED'' label \<and> sublist ''FALSE'' label
        \<longrightarrow> map_to_main_category label = ''Confirmed Planet'')
   \<and> (sublist ''CONFIRMED'' (map spec_upper_char label)
        \<and> sublist ''FALSE'' (map spec_upper_char label)
        \<longrightarrow> map_to_main_category label = ''Confirmed Planet'')"
proof -
  have "map_to_main_category label = spec_category label"
    by (simp add: map_to_main_category_def spec_category_def Let_def str_in_sublist
          upper_spec strip_spec)
  then show ?thesis
    using confirmed_wins [of label] confirmed_wins_any_case [of label] by blast
qed

theorem map_to_main_category_priority_witness:
  "sublist ''CONFIRMED'' ''FALSE, then CONFIRMED''
   \<and> sublist ''FALSE'' ''FALSE, then CONFIRMED''
   \<and> map_to_main_category ''FALSE, then CONFIRMED'' = ''Confirmed Planet''
   \<and> sublist ''CONFIRMED'' (map spec_upper_char '' false alarm, later Confirmed '')
   \<and> sublist ''FALSE'' (map spec_upper_char '' false alarm, later Confirmed '')
   \<and> map_to_main_category '' false alarm, later Confirmed '' = ''Confirmed Planet''
   \<and> spec_category '' false alarm, later Confirmed '' = ''Confirmed Planet''
   \<and> map_to_main_category ''kp'' = ''Candidate Planet''
   \<and> spec_category ''kp'' = ''Candidate Planet''
   \<and> map_to_main_category ''refuted'' = ''False Positive (Not a Planet)''
   \<and> spec_category ''refuted'' = ''False Positive (Not a Planet)''
   \<and> map_to_main_category '' planet b '' = '' planet b ''
   \<and> spec_category '' planet b '' = '' planet b ''"
proof -
  have c: "sublist ''CONFIRMED'' ''FALSE, then CONFIRMED''"
    unfolding str_in_sublist [symmetric] by simp
  have f: "sublist ''FALSE'' ''FALSE, then CONFIRMED''"
    unfolding str_in_sublist [symmetric] by simp
  have c': "sublist ''CONFIRMED'' (map spec_upper_char '' false alarm, later Confirmed '')"
    unfolding str_in_sublist [symmetric] upper_spec [symmetric]
    by (simp add: upper_def upper_char_def)
  have f': "sublist ''FALSE'' (map spec_upper_char '' false alarm, later Confirmed '')"
    unfolding str_in_sublist [symmetric] upper_spec [symmetric]
    by (simp add: upper_def upper_char_def)
  have k: "map_to_main_category ''kp'' = ''Candidate Planet''" by (simp add: map_to_main_category_def upper_def upper_char_def strip_def is_space_def)
  have r: "map_to_main_category ''refuted'' = ''False Positive (Not a Planet)''"
    by (simp add: map_to_main_category_def upper_def upper_char_def strip_def is_space_def)
  have p: "map_to_main_category '' planet b '' = '' planet b ''" by (simp add: map_to_main_category_def upper_def upper_char_def strip_def is_space_def)
  note t1 = map_to_main_category_priority [of "''FALSE, then CONFIRMED''"]
  note t2 = map_to_main_category_priority [of "'' false alarm, later Confirmed ''"]
  note t3 = map_to_main_category_priority [of "''kp''", THEN conjunct1]
  note t4 = map_to_main_category_priority [of "''refuted''", THEN conjunct1]
  note t5 = map_to_main_category_priority [of "'' planet b ''", THEN conjunct1]
  have m1: "map_to_main_category ''FALSE, then CONFIRMED'' = ''Confirmed Planet''"
    using t1 c f by blast
  have m2: "map_to_main_category '' false alarm, later Confirmed '' = ''Confirmed Planet''"
    using t2 c' f' by blast
  have s2: "spec_category '' false alarm, later Confirmed '' = ''Confirmed Planet''"
    using t2 m2 by metis
  have s3: "spec_category ''kp'' = ''Candidate Planet''" using t3 k by metis
  have s4: "spec_category ''refuted'' = ''False Positive (Not a Planet)''" using t4 r by metis
  have s5: "spec_category '' planet b '' = '' planet b ''" using t5 p by metis
  show ?thesis using c f c' f' k r p m1 m2 s2 s3 s4 s5 by blast
qed


lemma coarse_fixed:
  "map_to_main_category ''Confirmed Planet'' = ''Confirmed Planet''"
  "map_to_main_category ''Candidate Planet'' = ''Candidate Planet''"
  "map_to_main_category ''False Positive (Not a Planet)'' = ''False Positive (Not a Planet)''"
  by (simp_all add: map_to_main_category_def upper_def upper_char_def strip_def is_space_def)

lemma map_to_main_category_cases:
  "map_to_main_category s = ''Confirmed Planet''
   \<or> map_to_main_category s = ''Candidate Planet''
   \<or> map_to_main_category s = ''False Positive (Not a Planet)''
   \<or> map_to_main_category s = s"
  unfolding map_to_main_category_def Let_def by presburger

text \<open>
  Claim C9. The decision function is idempotent: applying it to its own result changes
  nothing. Each of the three coarse category strings is mapped to itself by the keyword
  rules, and a label that was passed through is passed through again.
\<close>

theorem map_to_main_category_idempotent:
  "map_to_main_category (map_to_main_category s) = map_to_main_category s
   \<and> map_to_main_category ''Confirmed Planet'' = ''Confirmed Planet''
   \<and> map_to_main_category ''Candidate Planet'' = ''Candidate Planet''
   \<and> map_to_main_category ''False Positive (Not a Planet)'' = ''False Positive (Not a Planet)''"
  using map_to_main_category_cases [of s] coarse_fixed by metis

section \<open>The model check comes first\<close>

text \<open>
  Claim C4. When no classifier was loaded, every request to \<^verbatim>\<open>/predict\<close> is answered
  with status 500 and a message that mentions the model, whatever the request is: a
  body that cannot be read, an empty body and a body with invalid fields all get this
  answer, and nothing is printed.
\<close>

theorem predict_model_unavailable:
  "model art = None \<Longrightarrow>
     (\<exists>msg. predict float_of_str art request = (\<lparr>body = Error (Text msg), status = 500\<rparr>, [])
        \<and> str_in ''Model'' msg \<and> str_in ''model'' msg)"
  by (simp add: predict_def respond_def)

theorem predict_model_unavailable_witness:
  "model \<lparr>model = None, scaler = None, label_encoder = None\<rparr> = None
   \<and> (\<exists>msg. predict (\<lambda>s. None) \<lparr>model = None, scaler = None, label_encoder = None\<rparr>
               (Inr (JObj [])) = (\<lparr>body = Error (Text msg), status = 500\<rparr>, [])
        \<and> str_in ''Model'' msg \<and> str_in ''model'' msg)"
  using predict_model_unavailable
          [of "\<lparr>model = None, scaler = None, label_encoder = None\<rparr>" "\<lambda>s. None" "Inr (JObj [])"]
  by simp

section \<open>The aggregation loop\<close>

lemma dict_set_keys: "k \<in> set (map fst g) \<Longrightarrow> map fst (dict_set k v g) = map fst g"
  by (induction g) force+

lemma map_of_keys: "map_of g k = None \<longleftrightarrow> k \<notin> set (map fst g)"
  by (simp add: map_of_eq_None_iff)

lemma group_loop_KeyError:
  "(l, p) \<in> set items \<Longrightarrow> map_to_main_category l \<notin> set (map fst g) \<Longrightarrow>
     group_loop items g = Inl KeyError"
proof (induction items arbitrary: g)
  case Nil
  then show ?case by simp
next
  case (Cons item items)
  obtain l' p' where item: "item = (l', p')" by (cases item)
  show ?case
  proof (cases "map_of g (map_to_main_category l')")
    case None
    then show ?thesis by (simp add: item)
  next
    case (Some v)
    then have k: "map_to_main_category l' \<in> set (map fst g)"
      by (metis map_of_keys option.distinct(1))
    with Cons.prems have "(l, p) \<in> set items" by (auto simp: item)
    moreover have "map_to_main_category l \<notin> set (map fst (dict_set (map_to_main_category l') (float_add v p') g))"
      using Cons.prems(2) dict_set_keys [OF k] by simp
    ultimately have "group_loop items (dict_set (map_to_main_category l') (float_add v p') g) = Inl KeyError"
      by (rule Cons.IH)
    then show ?thesis by (simp add: item Some)
  qed
qed

lemma coarse_match:
  "str_in ''CONFIRMED'' (strip (upper ''Confirmed Planet''))"
  "str_in ''CANDIDATE'' (strip (upper ''Candidate Planet''))"
  "str_in ''FALSE'' (strip (upper ''False Positive (Not a Planet)''))"
  by (simp_all add: upper_def upper_char_def strip_def is_space_def)

text \<open>
  A label is classified by one of the three keyword rules exactly when the decision
  function maps it to one of the three buckets.
\<close>

lemma classified_iff:
  "map_to_main_category label \<in> set (map fst grouped_init) \<longleftrightarrow>
     str_in ''CONFIRMED'' (strip (upper label))
     \<or> list_ex (\<lambda>keyword. str_in keyword (strip (upper label)))
          [''CANDIDATE'', ''APC'', ''CP'', ''KP'']
     \<or> list_ex (\<lambda>keyword. str_in keyword (strip (upper label)))
          [''FALSE'', ''FA'', ''REFUTED'', ''NOT'']"
  (is "?l \<longleftrightarrow> ?r")
proof
  assume ?r
  then show ?l
    unfolding map_to_main_category_def Let_def grouped_init_def by auto
next
  assume l: ?l
  show ?r
  proof (rule ccontr)
    assume n: "\<not> ?r"
    then have "map_to_main_category label = label"
      unfolding map_to_main_category_def Let_def by presburger
    with l have "label = ''Confirmed Planet'' \<or> label = ''Candidate Planet''
        \<or> label = ''False Positive (Not a Planet)''"
      by (simp add: grouped_init_def)
    then have ?r using coarse_match by auto
    with n show False by contradiction
  qed
qed

section \<open>Rounding in the aggregation\<close>

lemma round_half_even_error: "\<bar>of_int (round_half_even x) - x\<bar> \<le> 1 / 2"
proof -
  have "of_int \<lfloor>x\<rfloor> \<le> x" "x < of_int \<lfloor>x\<rfloor> + 1" by linarith+
  then show ?thesis by (auto simp: round_half_even_def Let_def)
qed

lemma binade_le: 
  assumes "x \<noteq> 0"
  shows "2 powr of_int \<lfloor>log 2 \<bar>x\<bar>\<rfloor> \<le> \<bar>x\<bar>"
proof -
  have "of_int \<lfloor>log 2 \<bar>x\<bar>\<rfloor> \<le> log 2 \<bar>x\<bar>" by simp
  then have "2 powr of_int \<lfloor>log 2 \<bar>x\<bar>\<rfloor> \<le> 2 powr log 2 \<bar>x\<bar>"
    by (simp only: powr_le_cancel_iff) 
  also have "\<dots> = \<bar>x\<bar>" using assms by simp
  finally show ?thesis .
qed

lemma round_double_error: "\<bar>round_double x - x\<bar> \<le> \<bar>x\<bar> / 2 ^ 53"
proof (cases "x = 0")
  case True
  then show ?thesis by (simp add: round_double_def)
next
  case False
  define e where "e = \<lfloor>log 2 \<bar>x\<bar>\<rfloor>"
  define ulp :: real where "ulp = 2 powr of_int (e - 52)"
  have pos: "0 < ulp" by (simp add: ulp_def)
  have rd: "round_double x = of_int (round_half_even (x / ulp)) * ulp"
    using False by (simp add: round_double_def e_def ulp_def Let_def)
  have "\<bar>round_double x - x\<bar> = \<bar>of_int (round_half_even (x / ulp)) - x / ulp\<bar> * ulp"
  proof -
    have "round_double x - x = (of_int (round_half_even (x / ulp)) - x / ulp) * ulp"
      using pos by (simp add: rd field_simps)
    then show ?thesis using pos by (simp add: abs_mult)
  qed
  also have "\<dots> \<le> (1 / 2) * ulp"
    using round_half_even_error [of "x / ulp"] pos by (intro mult_right_mono) simp_all
  also have "\<dots> = 2 powr of_int e / 2 ^ 53"
  proof -
    have "ulp = 2 powr of_int e / 2 powr 52" by (simp add: ulp_def powr_diff)
    also have "(2::real) powr 52 = 2 ^ 52" by (simp add: powr_numeral)
    finally show ?thesis by simp
  qed
  also have "\<dots> \<le> \<bar>x\<bar> / 2 ^ 53"
    using binade_le [OF False] by (simp add: e_def divide_right_mono)
  finally show ?thesis .
qed

lemma float_add_error: "\<bar>float_add a b - (a + b)\<bar> \<le> \<bar>a + b\<bar> / 2 ^ 53"
  unfolding float_add_def by (rule round_double_error)

lemma map_of_dict_set:
  "k \<in> set (map fst g) \<Longrightarrow> map_of (dict_set k v g) k' = (if k' = k then Some v else map_of g k')"
  by (induction g) force+

lemma step_bound:
  fixes u c B p v0 :: real
  assumes "0 \<le> u" "0 \<le> c" "0 \<le> B" "0 \<le> p"
    and v0: "\<bar>v0 - B\<bar> \<le> c * B"
    and w: "\<bar>w - (v0 + p)\<bar> \<le> \<bar>v0 + p\<bar> * u"
  shows "\<bar>w - (B + p)\<bar> \<le> ((1 + c) * (1 + u) - 1) * (B + p)"
proof -
  have "\<bar>v0 + p\<bar> \<le> \<bar>v0 - B\<bar> + (B + p)" using assms(3,4) by linarith
  also have "\<dots> \<le> c * B + (B + p)" using v0 by simp
  finally have a: "\<bar>v0 + p\<bar> \<le> (1 + c) * B + p" by (simp add: algebra_simps)
  have "\<bar>v0 + p\<bar> * u \<le> ((1 + c) * B + p) * u"
    using a assms(1) by (rule mult_right_mono)
  then have "\<bar>w - (v0 + p)\<bar> \<le> ((1 + c) * B + p) * u" using w by linarith
  moreover have "\<bar>w - (B + p)\<bar> \<le> \<bar>w - (v0 + p)\<bar> + \<bar>v0 - B\<bar>" by linarith
  ultimately have "\<bar>w - (B + p)\<bar> \<le> ((1 + c) * B + p) * u + c * B" using v0 by linarith
  also have "\<dots> \<le> ((1 + c) * (1 + u) - 1) * (B + p)"
  proof -
    have "0 \<le> c * p + c * u * p"
      using assms(1,2,4) by (simp add: mult_nonneg_nonneg)
    then show ?thesis by (simp add: algebra_simps)
  qed
  finally show ?thesis .
qed

lemma group_loop_error:
  fixes B :: "string \<Rightarrow> real"
  assumes "\<forall>(l, p) \<in> set items. map_to_main_category l \<in> set (map fst g) \<and> 0 \<le> p"
    and "0 \<le> c" and "\<forall>k. 0 \<le> B k"
    and "\<forall>k v. map_of g k = Some v \<longrightarrow> \<bar>v - B k\<bar> \<le> c * B k"
  shows "\<exists>g'. group_loop items g = Inr g' \<and> map fst g' = map fst g
           \<and> (\<forall>k v. map_of g' k = Some v \<longrightarrow>
                 \<bar>v - (B k + bucket_mass k items)\<bar>
                   \<le> ((1 + c) * (1 + 1 / 2 ^ 53) ^ length items - 1) * (B k + bucket_mass k items))"
  using assms
proof (induction items arbitrary: g c B)
  case Nil
  then show ?case by (simp add: bucket_mass_def)
next
  case (Cons item items)
  obtain l p where item: "item = (l, p)" by (cases item)
  define k0 where "k0 = map_to_main_category l"
  have k0: "k0 \<in> set (map fst g)" and p: "0 \<le> p" using Cons.prems(1) by (auto simp: item k0_def)
  then obtain v0 where v0: "map_of g k0 = Some v0"
    by (metis map_of_keys not_Some_eq)
  define w where "w = float_add v0 p"
  define g1 where "g1 = dict_set k0 w g"
  define B1 where "B1 = B(k0 := B k0 + p)"
  define c1 :: real where "c1 = (1 + c) * (1 + 1 / 2 ^ 53) - 1"
  have keys1: "map fst g1 = map fst g" unfolding g1_def using k0 by (rule dict_set_keys)
  have c_le: "c \<le> c1" using Cons.prems(2) by (simp add: c1_def algebra_simps)
  have c1: "0 \<le> c1" using c_le Cons.prems(2) by simp
  have B1: "\<forall>k. 0 \<le> B1 k" using Cons.prems(3) p by (simp add: B1_def)
  have w: "\<bar>w - (v0 + p)\<bar> \<le> \<bar>v0 + p\<bar> * (1 / 2 ^ 53)"
    using float_add_error [of v0 p] by (simp add: w_def)
  have bound1: "\<forall>k v. map_of g1 k = Some v \<longrightarrow> \<bar>v - B1 k\<bar> \<le> c1 * B1 k"
  proof (intro allI impI)
    fix k v assume kv: "map_of g1 k = Some v"
    show "\<bar>v - B1 k\<bar> \<le> c1 * B1 k"
    proof (cases "k = k0")
      case True
      then have "v = w" using kv k0 by (simp add: g1_def map_of_dict_set)
      moreover have "\<bar>w - (B k0 + p)\<bar> \<le> ((1 + c) * (1 + 1 / 2 ^ 53) - 1) * (B k0 + p)"
        using Cons.prems(2,3,4) p v0 w by (intro step_bound [where ?v0.0 = v0]) auto
      ultimately show ?thesis using True by (simp add: B1_def c1_def)
    next
      case False
      then have "map_of g k = Some v" using kv k0 by (simp add: g1_def map_of_dict_set)
      then have "\<bar>v - B k\<bar> \<le> c * B k" using Cons.prems(4) by blast
      also have "\<dots> \<le> c1 * B k" using c_le Cons.prems(3) by (simp add: mult_right_mono)
      finally show ?thesis using False by (simp add: B1_def)
    qed
  qed
  have items1: "\<forall>(l, p) \<in> set items. map_to_main_category l \<in> set (map fst g1) \<and> 0 \<le> p"
    using Cons.prems(1) by (simp add: keys1)
  from Cons.IH [OF items1 c1 B1 bound1] obtain g' where g':
    "group_loop items g1 = Inr g'" "map fst g' = map fst g1"
    "\<forall>k v. map_of g' k = Some v \<longrightarrow>
        \<bar>v - (B1 k + bucket_mass k items)\<bar>
          \<le> ((1 + c1) * (1 + 1 / 2 ^ 53) ^ length items - 1) * (B1 k + bucket_mass k items)"
    by blast
  have run: "group_loop (item # items) g = Inr g'"
    using g'(1) v0 by (simp add: item k0_def [symmetric] g1_def w_def)
  have mass: "B1 k + bucket_mass k items = B k + bucket_mass k (item # items)" for k
    by (simp add: B1_def bucket_mass_def item k0_def)
  have coef: "(1 + c1) * (1 + 1 / 2 ^ 53) ^ length items
                = (1 + c) * (1 + 1 / 2 ^ 53) ^ length (item # items)"
    by (simp add: c1_def)
  have bound: "\<forall>k v. map_of g' k = Some v \<longrightarrow>
        \<bar>v - (B k + bucket_mass k (item # items))\<bar>
          \<le> ((1 + c) * (1 + 1 / 2 ^ 53) ^ length (item # items) - 1)
              * (B k + bucket_mass k (item # items))"
    using g'(3) unfolding mass coef .
  show ?case
  proof (intro exI conjI)
    show "group_loop (item # items) g = Inr g'" by (rule run)
    show "map fst g' = map fst g" using g'(2) keys1 by simp
    show "\<forall>k v. map_of g' k = Some v \<longrightarrow>
        \<bar>v - (B k + bucket_mass k (item # items))\<bar>
          \<le> ((1 + c) * (1 + 1 / 2 ^ 53) ^ length (item # items) - 1)
              * (B k + bucket_mass k (item # items))"
      by (rule bound)
  qed
qed

lemma rounding_growth:
  "real n \<le> 2 ^ 52 \<Longrightarrow> (1 + 1 / 2 ^ 53 :: real) ^ n \<le> 1 + real n / 2 ^ 52"
proof (induction n)
  case 0
  then show ?case by simp
next
  case (Suc n)
  then have n: "real n \<le> 2 ^ 52" by simp
  have "(1 + 1 / 2 ^ 53 :: real) ^ Suc n = (1 + 1 / 2 ^ 53) ^ n * (1 + 1 / 2 ^ 53)" by simp
  also have "\<dots> \<le> (1 + real n / 2 ^ 52) * (1 + 1 / 2 ^ 53)"
    using Suc.IH [OF n] by (intro mult_right_mono) simp_all
  also have "\<dots> \<le> 1 + real (Suc n) / 2 ^ 52"
    using n by (simp add: field_simps)
  finally show ?case .
qed

lemma bucket_mass_nonneg:
  "\<forall>(l, p) \<in> set items. 0 \<le> p \<Longrightarrow> 0 \<le> bucket_mass k items"
  by (induction items) (auto simp: bucket_mass_def)

lemma bucket_mass_partition:
  assumes "\<forall>(l, p) \<in> set items. map_to_main_category l \<in> {k1, k2, k3}"
    and "k1 \<noteq> k2" "k1 \<noteq> k3" "k2 \<noteq> k3"
  shows "bucket_mass k1 items + bucket_mass k2 items + bucket_mass k3 items
           = sum_list (map snd items)"
  using assms(1)
proof (induction items)
  case Nil
  then show ?case by (simp add: bucket_mass_def)
next
  case (Cons item items)
  then have "map_to_main_category (fst item) \<in> {k1, k2, k3}" by auto
  moreover have "bucket_mass k1 items + bucket_mass k2 items + bucket_mass k3 items
           = sum_list (map snd items)" using Cons by simp
  ultimately show ?case using assms(2-4) by (auto simp: bucket_mass_def)
qed

text \<open>
  Claim C3. Take a fine-grained distribution with at most 2^30 labels, each classified by
  one of the three keyword rules, with probabilities that are not negative and sum to 1
  up to a floating-point tolerance of 5e-7. Then the aggregation
  succeeds and has exactly the three buckets, and the bucket values, each the result of
  rounded double additions, sum to 1 within 1e-6: the buckets partition the labels, and
  each addition loses at most a 2^-53 part of the sum it forms.
\<close>

theorem grouped_confidence_preserves_mass:
  assumes "\<forall>(label, prob) \<in> set detailed.
             map_to_main_category label \<in> set (map fst grouped_init) \<and> 0 \<le> prob"
    and "length detailed \<le> 2 ^ 30"
    and "\<bar>sum_list (map snd detailed) - 1\<bar> \<le> 5 / 10 ^ 7"
  shows "\<exists>grouped. grouped_confidence detailed = Inr grouped
           \<and> map fst grouped = [''Confirmed Planet'', ''Candidate Planet'', ''False Positive (Not a Planet)'']
           \<and> \<bar>sum_list (map snd grouped) - sum_list (map snd detailed)\<bar>
                \<le> real (length detailed) / 2 ^ 52 * sum_list (map snd detailed)
           \<and> \<bar>sum_list (map snd grouped) - 1\<bar> \<le> 1 / 10 ^ 6"
proof -
  let ?k1 = "''Confirmed Planet''" and ?k2 = "''Candidate Planet''"
  let ?k3 = "''False Positive (Not a Planet)''"
  let ?n = "length detailed"
  let ?S = "sum_list (map snd detailed)"
  let ?C = "(1 + 1 / 2 ^ 53 :: real) ^ ?n - 1"
  have init: "\<forall>k v. map_of grouped_init k = Some v \<longrightarrow> \<bar>v - (\<lambda>k. 0 :: real) k\<bar> \<le> 0 * (\<lambda>k. 0) k"
    by (simp add: grouped_init_def)
  from group_loop_error [OF assms(1) order_refl _ init]
  obtain g where g: "group_loop detailed grouped_init = Inr g"
    "map fst g = map fst grouped_init"
    "\<forall>k v. map_of g k = Some v \<longrightarrow>
       \<bar>v - (0 + bucket_mass k detailed)\<bar> \<le> ((1 + 0) * (1 + 1 / 2 ^ 53) ^ ?n - 1) * (0 + bucket_mass k detailed)"
    by auto
  from g(2) obtain b1 b2 b3 where gs: "g = [(?k1, b1), (?k2, b2), (?k3, b3)]"
    by (auto simp: grouped_init_def map_eq_Cons_conv)
  have nonneg: "\<forall>(l, p) \<in> set detailed. 0 \<le> p" using assms(1) by auto
  have part: "bucket_mass ?k1 detailed + bucket_mass ?k2 detailed + bucket_mass ?k3 detailed = ?S"
    using assms(1) by (intro bucket_mass_partition) (auto simp: grouped_init_def)
  have a3: "\<bar>?S - 1\<bar> \<le> 1 / 2000000" using assms(3) by simp
  have S0: "0 \<le> ?S" and S1: "?S \<le> 1 + 1 / 2000000" using a3 by linarith+
  have C0: "0 \<le> ?C" by simp
  have e1: "\<bar>b1 - bucket_mass ?k1 detailed\<bar> \<le> ?C * bucket_mass ?k1 detailed"
    using g(3) [rule_format, of ?k1 b1] by (simp add: gs)
  have e2: "\<bar>b2 - bucket_mass ?k2 detailed\<bar> \<le> ?C * bucket_mass ?k2 detailed"
    using g(3) [rule_format, of ?k2 b2] by (simp add: gs)
  have e3: "\<bar>b3 - bucket_mass ?k3 detailed\<bar> \<le> ?C * bucket_mass ?k3 detailed"
    using g(3) [rule_format, of ?k3 b3] by (simp add: gs)
  have "\<bar>(b1 + b2 + b3) - ?S\<bar>
          \<le> ?C * bucket_mass ?k1 detailed + ?C * bucket_mass ?k2 detailed
              + ?C * bucket_mass ?k3 detailed"
    using e1 e2 e3 part by linarith
  also have "\<dots> = ?C * (bucket_mass ?k1 detailed + bucket_mass ?k2 detailed
                          + bucket_mass ?k3 detailed)"
    by (simp only: distrib_left)
  also have "\<dots> = ?C * ?S" by (simp only: part)
  finally have err: "\<bar>(b1 + b2 + b3) - ?S\<bar> \<le> ?C * ?S" .
  have "real ?n \<le> 2 ^ 30" using assms(2) by (metis of_nat_le_iff of_nat_numeral of_nat_power)
  then have n52: "real ?n \<le> 2 ^ 52" and n30: "real ?n / 2 ^ 52 \<le> 1 / 4194304"
    by (simp_all add: field_simps)
  have C: "?C \<le> real ?n / 2 ^ 52" using rounding_growth [OF n52] by simp
  have err2: "\<bar>(b1 + b2 + b3) - ?S\<bar> \<le> real ?n / 2 ^ 52 * ?S"
    using err mult_right_mono [OF C S0] by linarith
  define d :: real where "d = 1 / 4194304 * (1 + 1 / 2000000)"
  have "real ?n / 2 ^ 52 * ?S \<le> 1 / 4194304 * ?S" using n30 S0 by (rule mult_right_mono)
  also have "\<dots> \<le> d" using S1 by (simp add: d_def)
  finally have "\<bar>(b1 + b2 + b3) - ?S\<bar> \<le> d" using err2 by linarith
  then have "\<bar>(b1 + b2 + b3) - 1\<bar> \<le> d + 1 / 2000000"
    using a3 by linarith
  also have "\<dots> \<le> 1 / 1000000" by (simp add: d_def)
  finally have tol: "\<bar>(b1 + b2 + b3) - 1\<bar> \<le> 1 / 10 ^ 6" by simp
  show ?thesis
    using g(1) err2 tol by (simp add: grouped_confidence_def gs add.assoc)
qed

text \<open>
  Rounding at concrete values: a real between 2^-m and 2^(1-m) is rounded on the grid of
  step 2^-(m+52).
\<close>

lemma round_double_binade:
  assumes "1 \<le> x * 2 ^ m" "x * 2 ^ m < 2"
  shows "round_double x = of_int (round_half_even (x * 2 ^ (m + 52))) / 2 ^ (m + 52)"
proof -
  have pos: "0 < x" using assms(1) by (smt (verit) mult_le_0_iff zero_less_power)
  have p: "(2 :: real) powr (- real m) = 1 / 2 ^ m"
    by (simp add: powr_minus powr_realpow divide_inverse)
  have lo: "2 powr (- real m) \<le> x"
    using assms(1) by (simp add: p field_simps)
  have "(2 :: real) powr (- real m + 1) = 2 powr (- real m) * 2 powr 1" by (rule powr_add)
  also have "\<dots> = 2 / 2 ^ m" by (simp only: p) simp
  finally have h: "(2 :: real) powr (- real m + 1) = 2 / 2 ^ m" .
  have "x < 2 / 2 ^ m" using assms(2) by (simp add: field_simps)
  then have hi: "x < 2 powr (- real m + 1)" by (simp only: h)
  have "- real m \<le> log 2 x" using lo pos by (simp add: le_log_iff)
  moreover have "log 2 x < - real m + 1" using hi pos by (simp add: log_less_iff)
  ultimately have e: "\<lfloor>log 2 x\<rfloor> = - int m" by (simp add: floor_eq_iff)
  have ulp: "(2 :: real) powr (- real m - 52) = 1 / 2 ^ (m + 52)"
  proof -
    have "(2 :: real) powr (- real m - 52) = 2 powr (- real (m + 52))" by simp
    also have "\<dots> = 1 / 2 ^ (m + 52)"
      by (simp only: powr_minus powr_realpow) (simp add: field_simps)
    finally show ?thesis .
  qed
  show ?thesis using pos by (simp add: round_double_def e ulp Let_def)
qed

lemma float_add_example:
  "float_add 0 (5764607523034235 / 576460752303423488) = 5764607523034235 / 576460752303423488"
  "float_add 0 (1080863910568919 / 18014398509481984) = 1080863910568919 / 18014398509481984"
  "float_add (1080863910568919 / 18014398509481984) (7836263351624663 / 9007199254740992)
     = 4188347653454561 / 4503599627370496"
proof -
  show "float_add 0 (5764607523034235 / 576460752303423488) = 5764607523034235 / 576460752303423488"
    unfolding float_add_def
    by (simp, subst round_double_binade [where m = 7]) (simp_all add: round_half_even_def)
  show "float_add 0 (1080863910568919 / 18014398509481984) = 1080863910568919 / 18014398509481984"
    unfolding float_add_def
    by (simp, subst round_double_binade [where m = 5]) (simp_all add: round_half_even_def)
  have "(1080863910568919 / 18014398509481984 + 7836263351624663 / 9007199254740992 :: real)
          = 16753390613818245 / 18014398509481984" by simp
  moreover have "round_double (16753390613818245 / 18014398509481984)
          = 4188347653454561 / 4503599627370496"
  proof -
    have f: "\<lfloor>16753390613818245 / 2 :: real\<rfloor> = 8376695306909122"
      by (simp add: floor_eq_iff)
    show ?thesis
      by (subst round_double_binade [where m = 1]) (simp_all add: round_half_even_def f)
  qed
  ultimately show "float_add (1080863910568919 / 18014398509481984)
      (7836263351624663 / 9007199254740992) = 4188347653454561 / 4503599627370496"
    unfolding float_add_def by simp
qed

theorem grouped_confidence_preserves_mass_witness:
  "map_to_main_category ''CONFIRMED'' = ''Confirmed Planet''
   \<and> map_to_main_category ''CP'' = ''Candidate Planet''
   \<and> map_to_main_category ''FA'' = ''False Positive (Not a Planet)''
   \<and> map_to_main_category ''REFUTED'' = ''False Positive (Not a Planet)''
   \<and> grouped_confidence
        [(''CONFIRMED'', 5764607523034235 / 576460752303423488),
         (''CP'', 1080863910568919 / 18014398509481984),
         (''FA'', 1080863910568919 / 18014398509481984),
         (''REFUTED'', 7836263351624663 / 9007199254740992)] =
       Inr [(''Confirmed Planet'', 5764607523034235 / 576460752303423488),
            (''Candidate Planet'', 1080863910568919 / 18014398509481984),
            (''False Positive (Not a Planet)'', 4188347653454561 / 4503599627370496)]
   \<and> (5764607523034235 / 576460752303423488 + 1080863910568919 / 18014398509481984
        + 4188347653454561 / 4503599627370496 :: real) < 1
   \<and> \<bar>sum_list (map snd
          [(''Confirmed Planet'', 5764607523034235 / 576460752303423488),
           (''Candidate Planet'', 1080863910568919 / 18014398509481984),
           (''False Positive (Not a Planet)'', 4188347653454561 / 4503599627370496 :: real)]) - 1\<bar>
        \<le> 1 / 10 ^ 6"
proof -
  let ?d = "[(''CONFIRMED'', 5764607523034235 / 576460752303423488),
         (''CP'', 1080863910568919 / 18014398509481984),
         (''FA'', 1080863910568919 / 18014398509481984),
         (''REFUTED'', 7836263351624663 / 9007199254740992 :: real)]"
  let ?g = "[(''Confirmed Planet'', 5764607523034235 / 576460752303423488),
            (''Candidate Planet'', 1080863910568919 / 18014398509481984),
            (''False Positive (Not a Planet)'', 4188347653454561 / 4503599627370496 :: real)]"
  have m: "map_to_main_category ''CONFIRMED'' = ''Confirmed Planet''
      \<and> map_to_main_category ''CP'' = ''Candidate Planet''
      \<and> map_to_main_category ''FA'' = ''False Positive (Not a Planet)''
      \<and> map_to_main_category ''REFUTED'' = ''False Positive (Not a Planet)''"
    by (simp add: map_to_main_category_def upper_def upper_char_def strip_def is_space_def)
  have 1: "\<forall>(label, prob) \<in> set ?d.
             map_to_main_category label \<in> set (map fst grouped_init) \<and> 0 \<le> prob"
    using m by (simp add: grouped_init_def)
  have 2: "length ?d \<le> 2 ^ 30" by simp
  have 3: "\<bar>sum_list (map snd ?d) - 1\<bar> \<le> 5 / 10 ^ 7" by simp
  have e: "grouped_confidence ?d = Inr ?g"
    using m by (simp add: grouped_confidence_def grouped_init_def float_add_example)
  have lt: "(5764607523034235 / 576460752303423488 + 1080863910568919 / 18014398509481984
        + 4188347653454561 / 4503599627370496 :: real) < 1" by simp
  from grouped_confidence_preserves_mass [OF 1 2 3] e
  have "\<bar>sum_list (map snd ?g) - 1\<bar> \<le> 1 / 10 ^ 6" by auto
  then show ?thesis using m e lt by blast
qed

section \<open>The handler on a request that passes validation\<close>

lemma predict_valid:
  assumes "model art = Some clf" "read_features f request = Value input"
  shows "predict f art request =
     (let (outcome, lines) = infer clf art input in
      case outcome of
        Inr r \<Rightarrow> (r, lines)
      | Inl ValueError \<Rightarrow>
          (respond 400 (Error (Formatted ''Invalid input value: '' ValueError)), lines)
      | Inl e \<Rightarrow> (respond 500 (Error (Formatted ''Prediction error: '' e)), lines))"
  using assms by (simp add: predict_def try_block_def)

lemma infer_decoded:
  assumes "apply_scaler (scaler art) [fst input, fst (snd input), snd (snd input)] = Inr features"
    and "clf_predict clf features = Inr prediction"
    and "decode_prediction (label_encoder art) prediction = (Inr prediction_label, lines)"
  shows "infer clf art input =
     (case get_confidence clf (label_encoder art) features of
        Inl e \<Rightarrow> (Inl e, lines)
      | Inr confidence \<Rightarrow>
          (Inr (respond 200
                 (Result prediction_label input
                    (if confidence_truthy confidence then confidence else None))),
           lines))"
  using assms by (simp add: infer_def)

lemma get_confidence_no_proba:
  "clf_predict_proba clf = None \<Longrightarrow> get_confidence clf encoder features = Inr None"
  by (simp add: get_confidence_def probability_step_def)

text \<open>
  Claim C6. For a request that passes validation, with a classifier that has no
  probability output and whose scaling, prediction and decoding succeed, no error comes
  out of the probability step: the response has status 200 and holds the prediction and
  the echoed input, without a confidence object.
\<close>

theorem predict_without_probabilities:
  assumes "model art = Some clf"
    and "clf_predict_proba clf = None"
    and "read_features f request = Value input"
    and "apply_scaler (scaler art) [fst input, fst (snd input), snd (snd input)] = Inr features"
    and "clf_predict clf features = Inr prediction"
    and "decode_prediction (label_encoder art) prediction = (Inr prediction_label, lines)"
  shows "predict f art request =
           (\<lparr>body = Result prediction_label input None, status = 200\<rparr>, lines)"
proof -
  have "infer clf art input = (Inr (respond 200 (Result prediction_label input None)), lines)"
    using assms(2,4,5,6) by (simp add: infer_decoded get_confidence_no_proba)
  then show ?thesis using assms(1,3) by (simp add: predict_valid respond_def)
qed

lemma read_example: "read_features f example_request = Value example_input"
  by (simp add: read_features_def required_fields_def read_field_def example_request_def
        example_input_def)

theorem predict_without_probabilities_witness:
  "predict (\<lambda>s. None)
     \<lparr>model = Some (example_classifier_no_proba 4), scaler = Some (\<lambda>features. Inr features),
      label_encoder = Some example_encoder\<rparr> example_request =
   (\<lparr>body = Result ''Candidate Planet'' example_input None, status = 200\<rparr>,
    [Detailed_Prediction ''KP'' ''Candidate Planet''])"
proof -
  let ?art = "\<lparr>model = Some (example_classifier_no_proba 4),
               scaler = Some (\<lambda>features. Inr features), label_encoder = Some example_encoder\<rparr>"
  have 1: "model ?art = Some (example_classifier_no_proba 4)" by simp
  have 2: "clf_predict_proba (example_classifier_no_proba 4) = None"
    by (simp add: example_classifier_no_proba_def)
  have 3: "read_features (\<lambda>s. None) example_request = Value example_input"
    by (rule read_example)
  have 4: "apply_scaler (scaler ?art)
             [fst example_input, fst (snd example_input), snd (snd example_input)] =
           Inr [Fin (21 / 2), Fin (21 / 10), Fin (6 / 5)]"
    by (simp add: apply_scaler_def example_input_def)
  have 5: "clf_predict (example_classifier_no_proba 4) [Fin (21 / 2), Fin (21 / 10), Fin (6 / 5)] = Inr 4"
    by (simp add: example_classifier_no_proba_def)
  have 6: "decode_prediction (label_encoder ?art) 4 =
             (Inr ''Candidate Planet'', [Detailed_Prediction ''KP'' ''Candidate Planet''])"
    by (simp add: decode_prediction_def example_encoder_def Let_def map_to_main_category_def upper_def upper_char_def
          strip_def is_space_def)
  show ?thesis by (rule predict_without_probabilities [OF 1 2 3 4 5 6])
qed

section \<open>A label outside the three keyword groups\<close>

text \<open>
  Whenever the fine-grained distribution holds a label that the decision function passes
  through, the bucket lookup of line 202 raises \<open>KeyError\<close>: no grouped distribution is
  built, and the handler for \<^verbatim>\<open>Exception\<close> answers with status 500.
\<close>

lemma predict_fallthrough_fails:
  assumes "model art = Some clf"
    and "label_encoder art = Some inverse_transform"
    and "read_features f request = Value input"
    and "apply_scaler (scaler art) [fst input, fst (snd input), snd (snd input)] = Inr features"
    and "clf_predict clf features = Inr prediction"
    and "inverse_transform prediction = Inr detailed_label"
    and "clf_predict_proba clf = Some predict_proba"
    and "predict_proba features = Inr probabilities"
    and "detailed_confidence inverse_transform 0 probabilities [] = Inr detailed"
    and "(label, prob) \<in> set detailed"
    and "map_to_main_category label \<notin> set (map fst grouped_init)"
  shows "grouped_confidence detailed = Inl KeyError
         \<and> fst (predict f art request) =
             \<lparr>body = Error (Formatted ''Prediction error: '' KeyError), status = 500\<rparr>"
proof -
  have g: "grouped_confidence detailed = Inl KeyError"
    unfolding grouped_confidence_def using assms(10,11) by (rule group_loop_KeyError)
  have "get_confidence clf (label_encoder art) features = Inl KeyError"
    using assms(2,7,8,9) g by (simp add: get_confidence_def probability_step_def)
  moreover have "decode_prediction (label_encoder art) prediction =
      (Inr (map_to_main_category detailed_label),
       [Detailed_Prediction detailed_label (map_to_main_category detailed_label)])"
    using assms(2,6) by (simp add: decode_prediction_def Let_def)
  ultimately have "infer clf art input =
      (Inl KeyError, [Detailed_Prediction detailed_label (map_to_main_category detailed_label)])"
    using assms(4,5) by (simp add: infer_decoded)
  then have "fst (predict f art request) = respond 500 (Error (Formatted ''Prediction error: '' KeyError))"
    using assms(1,3) by (simp add: predict_valid)
  with g show ?thesis by (simp add: respond_def)
qed


text \<open>
  Claim C1. The claim is that a raw label outside the three keyword groups only loses its
  probability mass and that the request still succeeds. On the code it does not: with
  the six labels APC, CP, FA, FP, KP, PC the label "FP" is passed through by the decision
  function, and a valid request whose prediction decodes to "CP" is answered with
  status 500 and the message "Prediction error: ..." of the \<open>KeyError\<close>.
\<close>

theorem predict_fallthrough_label_raises:
  "map_to_main_category ''FP'' = ''FP''
   \<and> fst (predict (\<lambda>s. None)
        \<lparr>model = Some (example_classifier 1 [1 / 10, 1 / 2, 1 / 10, 1 / 10, 1 / 10, 1 / 10]),
         scaler = None, label_encoder = Some example_encoder\<rparr> example_request) =
       \<lparr>body = Error (Formatted ''Prediction error: '' KeyError), status = 500\<rparr>"
  by (simp add: predict_def try_block_def read_features_def required_fields_def read_field_def
        infer_def apply_scaler_def decode_prediction_def get_confidence_def probability_step_def
        grouped_confidence_def grouped_init_def respond_def example_encoder_def
        example_classifier_def example_request_def Let_def
        map_to_main_category_def upper_def upper_char_def strip_def is_space_def)


section \<open>Degraded mode: no label encoder\<close>

lemma decode_prediction_static:
  "decode_prediction None prediction =
     (Inr (if prediction = 0 then ''False Positive (Not a Planet)''
           else if prediction = 1 then ''Candidate Planet''
           else if prediction = 2 then ''Confirmed Planet''
           else ''Unknown''), [])"
  by (simp add: decode_prediction_def CLASS_LABELS_def)

lemma class_confidence_ok:
  "i + length probs \<le> 3 \<Longrightarrow> \<exists>c. class_confidence i probs acc = Inr c"
proof (induction probs arbitrary: i acc)
  case Nil
  then show ?case by simp
next
  case (Cons prob probs)
  then have "i = 0 \<or> i = 1 \<or> i = 2" by auto
  then obtain label where "map_of CLASS_LABELS (int i) = Some label"
    by (auto simp: CLASS_LABELS_def)
  moreover have "Suc i + length probs \<le> 3" using Cons.prems by simp
  ultimately show ?case using Cons.IH [of "Suc i"] by simp
qed

lemma get_confidence_per_class:
  assumes "clf_predict_proba clf = Some predict_proba" "predict_proba features = Inr probs"
    "length probs \<le> 3"
  shows "\<exists>c. get_confidence clf None features = Inr c"
proof -
  from class_confidence_ok [of 0 probs "[]"] assms(3)
  obtain c where "class_confidence 0 probs [] = Inr c" by auto
  then show ?thesis using assms(1,2) by (simp add: get_confidence_def probability_step_def)
qed

lemma predict_decoded:
  assumes "model art = Some clf"
    and "read_features f request = Value input"
    and "apply_scaler (scaler art) [fst input, fst (snd input), snd (snd input)] = Inr features"
    and "clf_predict clf features = Inr prediction"
    and "decode_prediction (label_encoder art) prediction = (Inr prediction_label, lines)"
  shows "predict f art request =
     (case get_confidence clf (label_encoder art) features of
        Inr confidence \<Rightarrow>
          (respond 200 (Result prediction_label input
                          (if confidence_truthy confidence then confidence else None)), lines)
      | Inl ValueError \<Rightarrow>
          (respond 400 (Error (Formatted ''Invalid input value: '' ValueError)), lines)
      | Inl e \<Rightarrow> (respond 500 (Error (Formatted ''Prediction error: '' e)), lines))"
  using assms by (simp add: predict_valid infer_decoded split: sum.splits exn_class.splits)

text \<open>
  Claim C7. For a request that passes validation and whose scaling and prediction
  succeed, when no label encoder was loaded nothing is decoded and nothing is printed: a
  response with status 200 carries the label that the static mapping gives the predicted
  index (0 False Positive (Not a Planet), 1 Candidate Planet, 2 Confirmed Planet, any
  other index Unknown). The status is 200 when the classifier has no probability output
  or returns at most three probabilities.
\<close>

theorem predict_static_labels:
  assumes "model art = Some clf"
    and "label_encoder art = None"
    and "read_features f request = Value input"
    and "apply_scaler (scaler art) [fst input, fst (snd input), snd (snd input)] = Inr features"
    and "clf_predict clf features = Inr prediction"
  shows "\<exists>response. predict f art request = (response, [])
           \<and> (status response = 200 \<longrightarrow>
                (\<exists>confidence. body response =
                   Result (if prediction = 0 then ''False Positive (Not a Planet)''
                           else if prediction = 1 then ''Candidate Planet''
                           else if prediction = 2 then ''Confirmed Planet''
                           else ''Unknown'') input confidence))
           \<and> (clf_predict_proba clf = None \<longrightarrow> status response = 200)
           \<and> (\<forall>predict_proba probs.
                 clf_predict_proba clf = Some predict_proba \<and> predict_proba features = Inr probs
                 \<and> length probs \<le> 3 \<longrightarrow> status response = 200)"
proof -
  let ?label = "if prediction = 0 then ''False Positive (Not a Planet)''
                else if prediction = 1 then ''Candidate Planet''
                else if prediction = 2 then ''Confirmed Planet'' else ''Unknown''"
  have d: "decode_prediction (label_encoder art) prediction = (Inr ?label, [])"
    using assms(2) by (simp only: decode_prediction_static)
  note p = predict_decoded [OF assms(1,3,4,5) d]
  show ?thesis
  proof (cases "get_confidence clf (label_encoder art) features")
    case (Inl e)
    have no: "clf_predict_proba clf \<noteq> None"
      using Inl assms(2) get_confidence_no_proba [of clf None features] by auto
    have no3: "\<not> (\<exists>predict_proba probs. clf_predict_proba clf = Some predict_proba
                  \<and> predict_proba features = Inr probs \<and> length probs \<le> 3)"
      using Inl assms(2) get_confidence_per_class [of clf _ features] by fastforce
    show ?thesis using p Inl no no3 by (cases e) (auto simp: respond_def)
  next
    case (Inr confidence)
    then show ?thesis using p by (simp add: respond_def)
  qed
qed

theorem predict_static_labels_witness:
  "predict (\<lambda>s. None)
     \<lparr>model = Some (example_classifier 2 [1 / 10, 1 / 5, 7 / 10]), scaler = None,
      label_encoder = None\<rparr> example_request =
   (\<lparr>body = Result ''Confirmed Planet'' example_input
             (Some (Per_Class [(''False Positive (Not a Planet)'', 1 / 10),
                               (''Candidate Planet'', 1 / 5), (''Confirmed Planet'', 7 / 10)])),
     status = 200\<rparr>, [])"
proof -
  let ?clf = "example_classifier 2 [1 / 10, 1 / 5, 7 / 10]"
  let ?art = "\<lparr>model = Some ?clf, scaler = None, label_encoder = None\<rparr>"
  let ?features = "[Fin (21 / 2), Fin (21 / 10), Fin (6 / 5)]"
  have 1: "model ?art = Some ?clf" by simp
  have 2: "label_encoder ?art = None" by simp
  have 3: "read_features (\<lambda>s. None) example_request = Value example_input"
    by (rule read_example)
  have 4: "apply_scaler (scaler ?art)
             [fst example_input, fst (snd example_input), snd (snd example_input)] = Inr ?features"
    by (simp add: apply_scaler_def example_input_def)
  have 5: "clf_predict ?clf ?features = Inr 2" by (simp add: example_classifier_def)
  have e: "predict (\<lambda>s. None) ?art example_request =
     (\<lparr>body = Result ''Confirmed Planet'' example_input
             (Some (Per_Class [(''False Positive (Not a Planet)'', 1 / 10),
                               (''Candidate Planet'', 1 / 5), (''Confirmed Planet'', 7 / 10)])),
     status = 200\<rparr>, [])"
    by (simp add: predict_def try_block_def read_example infer_def apply_scaler_def
          decode_prediction_def get_confidence_def probability_step_def respond_def
          CLASS_LABELS_def example_classifier_def example_input_def Let_def)
  show ?thesis using predict_static_labels [OF 1 2 3 4 5] e by simp
qed

text \<open>
  Claim C10. With no label encoder and a predicted index outside 0, 1, 2, the label is
  "Unknown", which is none of the three coarse categories; no error arises from the
  lookup. With a classifier without probability output the response has status 200 and
  the prediction "Unknown"; any response with status 200 has that prediction.
\<close>

theorem predict_unknown_index:
  assumes "model art = Some clf"
    and "label_encoder art = None"
    and "read_features f request = Value input"
    and "apply_scaler (scaler art) [fst input, fst (snd input), snd (snd input)] = Inr features"
    and "clf_predict clf features = Inr prediction"
    and "prediction \<notin> {0, 1, 2}"
  shows "decode_prediction (label_encoder art) prediction = (Inr ''Unknown'', [])
         \<and> ''Unknown'' \<notin> set (map snd CLASS_LABELS)
         \<and> (clf_predict_proba clf = None \<longrightarrow>
              predict f art request =
                (\<lparr>body = Result ''Unknown'' input None, status = 200\<rparr>, []))
         \<and> (status (fst (predict f art request)) = 200 \<longrightarrow>
              (\<exists>confidence. body (fst (predict f art request)) =
                 Result ''Unknown'' input confidence))"
proof -
  have d: "decode_prediction (label_encoder art) prediction = (Inr ''Unknown'', [])"
    using assms(2,6) by (simp add: decode_prediction_static)
  note p = predict_decoded [OF assms(1,3,4,5) d]
  have a: "clf_predict_proba clf = None \<longrightarrow>
      predict f art request = (\<lparr>body = Result ''Unknown'' input None, status = 200\<rparr>, [])"
    using p by (simp add: get_confidence_no_proba respond_def)
  have b: "status (fst (predict f art request)) = 200 \<longrightarrow>
      (\<exists>confidence. body (fst (predict f art request)) = Result ''Unknown'' input confidence)"
  proof (cases "get_confidence clf (label_encoder art) features")
    case (Inl e)
    then show ?thesis using p by (cases e) (simp_all add: respond_def)
  next
    case (Inr confidence)
    then show ?thesis using p by (simp add: respond_def)
  qed
  have c: "''Unknown'' \<notin> set (map snd CLASS_LABELS)" by (simp add: CLASS_LABELS_def)
  show ?thesis using d a b c by blast
qed

theorem predict_unknown_index_witness:
  "(7 :: int) \<notin> {0, 1, 2}
   \<and> predict (\<lambda>s. None)
       \<lparr>model = Some (example_classifier_no_proba 7), scaler = None, label_encoder = None\<rparr>
       example_request =
     (\<lparr>body = Result ''Unknown'' example_input None, status = 200\<rparr>, [])"
proof -
  let ?clf = "example_classifier_no_proba 7"
  let ?art = "\<lparr>model = Some ?clf, scaler = None, label_encoder = None\<rparr>"
  let ?features = "[Fin (21 / 2), Fin (21 / 10), Fin (6 / 5)]"
  have 1: "model ?art = Some ?clf" by simp
  have 2: "label_encoder ?art = None" by simp
  have 3: "read_features (\<lambda>s. None) example_request = Value example_input"
    by (rule read_example)
  have 4: "apply_scaler (scaler ?art)
             [fst example_input, fst (snd example_input), snd (snd example_input)] = Inr ?features"
    by (simp add: apply_scaler_def example_input_def)
  have 5: "clf_predict ?clf ?features = Inr 7" by (simp add: example_classifier_no_proba_def)
  have 6: "(7 :: int) \<notin> {0, 1, 2}" by simp
  have 7: "clf_predict_proba ?clf = None" by (simp add: example_classifier_no_proba_def)
  show ?thesis using 6 7 predict_unknown_index [OF 1 2 3 4 5 6] by blast
qed

section \<open>Two calls with the same request\<close>

text \<open>What a request does to the module: it only adds to the standard output.\<close>

lemma decode_step_frame:
  "\<exists>lines. snd (decode_step prediction s) = s\<lparr>stdout := stdout s @ lines\<rparr>"
proof (cases "label_encoder (loaded s)")
  case None
  then have "snd (decode_step prediction s) = s\<lparr>stdout := stdout s @ []\<rparr>"
    by (simp add: decode_step_def)
  then show ?thesis by blast
next
  case (Some inverse_transform)
  show ?thesis
  proof (cases "inverse_transform prediction")
    case (Inl e)
    then have "snd (decode_step prediction s) = s\<lparr>stdout := stdout s @ []\<rparr>"
      using Some by (simp add: decode_step_def)
    then show ?thesis by blast
  next
    case (Inr l)
    then have "snd (decode_step prediction s) =
        s\<lparr>stdout := stdout s @ [Detailed_Prediction l (map_to_main_category l)]\<rparr>"
      using Some by (simp add: decode_step_def Let_def)
    then show ?thesis by blast
  qed
qed

lemma decode_step_same:
  "loaded s' = loaded s \<Longrightarrow> class_labels s' = class_labels s \<Longrightarrow>
     fst (decode_step prediction s') = fst (decode_step prediction s)"
  by (simp add: decode_step_def Let_def split: option.splits sum.splits)

lemma confidence_read_same:
  "loaded s' = loaded s \<Longrightarrow> class_labels s' = class_labels s \<Longrightarrow>
     confidence_read features s' = confidence_read features s"
  by (simp add: confidence_read_def probability_read_def
        cong: option.case_cong sum.case_cong)

lemma run_request_frame:
  "\<exists>lines. snd (run_request f request s) = s\<lparr>stdout := stdout s @ lines\<rparr>"
proof -
  have keep: "\<exists>lines. s = s\<lparr>stdout := stdout s @ lines\<rparr>"
    by (rule exI [of _ "[]"]) simp
  show ?thesis
    using keep decode_step_frame [of _ s]
    by (auto simp: run_request_def Let_def split: flow.splits sum.splits option.splits prod.splits)
       (metis snd_conv)+
qed

lemma frame_globals:
  "loaded (s\<lparr>stdout := out\<rparr>) = loaded s" "class_labels (s\<lparr>stdout := out\<rparr>) = class_labels s"
  "metrics (s\<lparr>stdout := out\<rparr>) = metrics s"
  by simp_all

lemma run_request_same:
  assumes "loaded s' = loaded s" "class_labels s' = class_labels s"
  shows "fst (run_request f request s') = fst (run_request f request s)"
proof (cases "read_features f request")
  case (Raised e)
  then show ?thesis by (simp add: run_request_def)
next
  case (Returned r)
  then show ?thesis by (simp add: run_request_def)
next
  case (Value input)
  show ?thesis
  proof (cases "apply_scaler (scaler (loaded s)) [fst input, fst (snd input), snd (snd input)]")
    case (Inl e)
    then show ?thesis using Value assms by (simp add: run_request_def)
  next
    case features: (Inr features)
    show ?thesis
    proof (cases "model (loaded s)")
      case None
      then show ?thesis using Value features assms by (simp add: run_request_def)
    next
      case (Some clf)
      show ?thesis
      proof (cases "clf_predict clf features")
        case (Inl e)
        then show ?thesis using Value features Some assms by (simp add: run_request_def)
      next
        case (Inr prediction)
        obtain d t where t: "decode_step prediction s = (d, t)" by (cases "decode_step prediction s")
        obtain d' t' where t': "decode_step prediction s' = (d', t')"
          by (cases "decode_step prediction s'")
        have d: "d' = d" using decode_step_same [OF assms, of prediction] t t' by simp
        obtain lines where "t = s\<lparr>stdout := stdout s @ lines\<rparr>"
          using decode_step_frame [of prediction s] t by auto
        moreover obtain lines' where "t' = s'\<lparr>stdout := stdout s' @ lines'\<rparr>"
          using decode_step_frame [of prediction s'] t' by auto
        ultimately have "loaded t' = loaded t" "class_labels t' = class_labels t"
          using assms by simp_all
        then have c: "confidence_read features t' = confidence_read features t"
          by (rule confidence_read_same)
        show ?thesis
          using Value features Some Inr assms t t' d c
          by (simp add: run_request_def split: sum.splits)
      qed
    qed
  qed
qed

lemma predict_request_same:
  assumes "loaded s' = loaded s" "class_labels s' = class_labels s"
  shows "fst (predict_request f request s') = fst (predict_request f request s)"
  using run_request_same [OF assms, of f request] assms
  by (auto simp: predict_request_def Let_def split: prod.splits sum.splits exn_class.splits)

lemma predict_request_frame:
  "\<exists>lines. snd (predict_request f request s) = s\<lparr>stdout := stdout s @ lines\<rparr>"
proof (cases "model (loaded s)")
  case None
  then have "snd (predict_request f request s) = s\<lparr>stdout := stdout s @ []\<rparr>"
    by (simp add: predict_request_def)
  then show ?thesis by blast
next
  case (Some clf)
  obtain lines where "snd (run_request f request s) = s\<lparr>stdout := stdout s @ lines\<rparr>"
    using run_request_frame by blast
  then have "snd (predict_request f request s) = s\<lparr>stdout := stdout s @ lines\<rparr>"
    using Some
    by (auto simp: predict_request_def Let_def split: prod.splits sum.splits exn_class.splits)
  then show ?thesis by blast
qed

text \<open>
  Claim C8. With the artifacts fixed and their methods functions of their arguments, the
  handler reads nothing but the request and the loaded globals and writes no global: a
  second call with the same request gives the same response as the first, a call leaves
  the artifacts, \<^verbatim>\<open>CLASS_LABELS\<close> and the metrics as they were, and two module states
  with the same artifacts and labels give the same response, whatever else they hold.
\<close>

theorem predict_request_deterministic:
  "fst (predict_request f request (snd (predict_request f request s))) =
     fst (predict_request f request s)
   \<and> loaded (snd (predict_request f request s)) = loaded s
   \<and> class_labels (snd (predict_request f request s)) = class_labels s
   \<and> metrics (snd (predict_request f request s)) = metrics s
   \<and> (loaded s' = loaded s \<and> class_labels s' = class_labels s \<longrightarrow>
        fst (predict_request f request s') = fst (predict_request f request s))"
proof -
  obtain lines where t: "snd (predict_request f request s) = s\<lparr>stdout := stdout s @ lines\<rparr>"
    using predict_request_frame by blast
  have "fst (predict_request f request (s\<lparr>stdout := stdout s @ lines\<rparr>)) =
        fst (predict_request f request s)"
    by (rule predict_request_same) simp_all
  then show ?thesis using t predict_request_same [of s' s f request] by simp
qed

theorem predict_request_deterministic_witness:
  "predict_request (\<lambda>s. None) example_request example_app =
     (\<lparr>body = Result ''Candidate Planet'' example_input None, status = 200\<rparr>,
      example_app\<lparr>stdout := [Detailed_Prediction ''CP'' ''Candidate Planet'']\<rparr>)
   \<and> fst (predict_request (\<lambda>s. None) example_request
            (example_app\<lparr>stdout := [Detailed_Prediction ''CP'' ''Candidate Planet'']\<rparr>)) =
       \<lparr>body = Result ''Candidate Planet'' example_input None, status = 200\<rparr>
   \<and> fst (predict_request (\<lambda>s. None) example_request
            (example_app\<lparr>metrics := PERFORMANCE_METRICS\<lparr>accuracy := 0\<rparr>,
                          stdout := [Detailed_Prediction ''KP'' ''Candidate Planet'']\<rparr>)) =
       \<lparr>body = Result ''Candidate Planet'' example_input None, status = 200\<rparr>"
proof -
  let ?f = "\<lambda>s :: string. None :: pyfloat option"
  let ?r = "\<lparr>body = Result ''Candidate Planet'' example_input None, status = 200\<rparr>"
  let ?t = "example_app\<lparr>stdout := [Detailed_Prediction ''CP'' ''Candidate Planet'']\<rparr>"
  let ?u = "example_app\<lparr>metrics := PERFORMANCE_METRICS\<lparr>accuracy := 0\<rparr>,
                         stdout := [Detailed_Prediction ''KP'' ''Candidate Planet'']\<rparr>"
  have 1: "predict_request ?f example_request example_app = (?r, ?t)"
    by (simp add: predict_request_def run_request_def read_example apply_scaler_def
          decode_step_def confidence_read_def probability_read_def respond_def
          example_app_def example_classifier_no_proba_def example_encoder_def example_input_def
          Let_def map_to_main_category_def upper_def upper_char_def strip_def is_space_def)
  have g: "loaded ?u = loaded example_app \<and> class_labels ?u = class_labels example_app"
    by simp
  note d = predict_request_deterministic [of ?f example_request example_app ?u]
  have 2: "fst (predict_request ?f example_request ?t) = ?r" using d 1 by simp
  have 3: "fst (predict_request ?f example_request ?u) = ?r" using d 1 g by simp
  show ?thesis using 1 2 3 by blast
qed

text \<open>
  On a module as it is after loading (\<^verbatim>\<open>CLASS_LABELS\<close> holds the three static labels
  when there is no label encoder, and is never read when there is one), the state
  transformer is the function \<open>predict\<close> of the artifacts and the request, with its
  printed lines appended to the output.
\<close>

lemma labelled_confidence_static:
  "labelled_confidence CLASS_LABELS i probs acc = class_confidence i probs acc"
  by (induction probs arbitrary: i acc) (simp_all split: option.splits)

lemma keep_stdout: "s\<lparr>stdout := stdout s @ []\<rparr> = (s :: app)"
  by simp

lemma decode_step_pure:
  assumes "label_encoder (loaded s) = None \<longrightarrow> class_labels s = CLASS_LABELS"
  shows "decode_step prediction s =
     (fst (decode_prediction (label_encoder (loaded s)) prediction),
      s\<lparr>stdout := stdout s @ snd (decode_prediction (label_encoder (loaded s)) prediction)\<rparr>)"
  using assms
  by (auto simp: decode_step_def decode_prediction_def Let_def split: option.splits sum.splits)

lemma confidence_read_pure:
  assumes "label_encoder (loaded s) = None \<longrightarrow> class_labels s = CLASS_LABELS"
    and "model (loaded s) = Some clf"
  shows "confidence_read features s = get_confidence clf (label_encoder (loaded s)) features"
proof (cases "label_encoder (loaded s)")
  case None
  then show ?thesis using assms
    by (simp add: confidence_read_def probability_read_def get_confidence_def probability_step_def
        labelled_confidence_static cong: option.case_cong sum.case_cong)
next
  case (Some a)
  then show ?thesis using assms(2)
    by (simp add: confidence_read_def probability_read_def get_confidence_def probability_step_def
        cong: option.case_cong sum.case_cong)
qed

lemma run_request_pure:
  assumes "label_encoder (loaded s) = None \<longrightarrow> class_labels s = CLASS_LABELS"
    and "model (loaded s) = Some clf"
  shows "run_request f request s =
     (fst (try_block f clf (loaded s) request),
      s\<lparr>stdout := stdout s @ snd (try_block f clf (loaded s) request)\<rparr>)"
proof (cases "read_features f request")
  case (Raised e)
  then show ?thesis by (simp add: run_request_def try_block_def)
next
  case (Returned r)
  then show ?thesis by (simp add: run_request_def try_block_def)
next
  case (Value input)
  show ?thesis
  proof (cases "apply_scaler (scaler (loaded s)) [fst input, fst (snd input), snd (snd input)]")
    case (Inl e)
    then show ?thesis using Value by (simp add: run_request_def try_block_def infer_def)
  next
    case features: (Inr features)
    show ?thesis
    proof (cases "clf_predict clf features")
      case (Inl e)
      then show ?thesis
        using Value features assms(2) by (simp add: run_request_def try_block_def infer_def)
    next
      case (Inr prediction)
      let ?d = "decode_prediction (label_encoder (loaded s)) prediction"
      let ?t = "s\<lparr>stdout := stdout s @ snd ?d\<rparr>"
      have d: "decode_step prediction s = (fst ?d, ?t)"
        using assms(1) by (rule decode_step_pure)
      have c: "confidence_read features ?t = get_confidence clf (label_encoder (loaded s)) features"
        using confidence_read_pure [of ?t clf features] assms by simp
      show ?thesis
        using Value features Inr assms(2) d c
        by (simp add: run_request_def try_block_def infer_def Let_def split_beta
              split: sum.splits)
    qed
  qed
qed

lemma predict_request_pure:
  assumes "label_encoder (loaded s) = None \<longrightarrow> class_labels s = CLASS_LABELS"
  shows "predict_request f request s =
     (fst (predict f (loaded s) request),
      s\<lparr>stdout := stdout s @ snd (predict f (loaded s) request)\<rparr>)"
proof (cases "model (loaded s)")
  case None
  then show ?thesis by (simp add: predict_request_def predict_def)
next
  case (Some clf)
  show ?thesis
    using Some run_request_pure [OF assms Some, of f request]
    by (simp add: predict_request_def predict_def Let_def split_beta
          split: sum.splits exn_class.splits)
qed

section \<open>Input validation\<close>

text \<open>
  What validation does on a body that is a dict: an empty body is refused first, then
  the first missing field in the order orbital_period, transit_duration,
  planetary_radius is named, a string that does not parse is refused by the handler for
  \<open>ValueError\<close>, and a value that is not positive is refused with a message that says so.
  All four answers have status 400 and come before any call of the classifier.
\<close>

lemma check_required_dict:
  "check_required fs (JObj kvs) =
     (case find (\<lambda>field. field \<notin> set (map fst kvs)) fs of
        None \<Rightarrow> Value ()
      | Some field \<Rightarrow> Returned (respond 400 (Error (Text (''Missing required field: '' @ field)))))"
  by (induction fs) simp_all

lemma predict_no_data:
  "model art = Some clf \<Longrightarrow> \<not> truthy data \<Longrightarrow>
     predict f art (Inr data) = (\<lparr>body = Error (Text ''No data provided''), status = 400\<rparr>, [])"
  by (simp add: predict_def try_block_def read_features_def respond_def)

lemma predict_missing_field:
  "model art = Some clf \<Longrightarrow> kvs \<noteq> [] \<Longrightarrow>
   find (\<lambda>field. field \<notin> set (map fst kvs)) required_fields = Some field \<Longrightarrow>
     predict f art (Inr (JObj kvs)) =
       (\<lparr>body = Error (Text (''Missing required field: '' @ field)), status = 400\<rparr>, [])"
  by (simp add: predict_def try_block_def read_features_def check_required_dict respond_def)

lemma predict_unparsable_string:
  "model art = Some clf \<Longrightarrow> f s = None \<Longrightarrow>
     predict f art (Inr (JObj [(''orbital_period'', JStr s), (''transit_duration'', JInt 2),
                               (''planetary_radius'', JInt 1)])) =
       (\<lparr>body = Error (Formatted ''Invalid input value: '' ValueError), status = 400\<rparr>, [])"
  by (simp add: predict_def try_block_def read_features_def required_fields_def read_field_def
        respond_def)

lemma predict_not_positive:
  "model art = Some clf \<Longrightarrow>
   read_field f data ''orbital_period'' = Value a \<Longrightarrow>
   read_field f data ''transit_duration'' = Value b \<Longrightarrow>
   read_field f data ''planetary_radius'' = Value c \<Longrightarrow>
   truthy data \<Longrightarrow> check_required required_fields data = Value () \<Longrightarrow>
   le_zero a \<or> le_zero b \<or> le_zero c \<Longrightarrow>
     \<exists>msg. predict f art (Inr data) = (\<lparr>body = Error (Text msg), status = 400\<rparr>, [])
       \<and> str_in ''positive'' msg"
  by (auto simp: predict_def try_block_def read_features_def respond_def)

text \<open>
  Claim C5. The claim is that every validation failure is answered with status 400, among
  them a present field that cannot be coerced to a float. On the code a field holding
  null is such a field, but \<^verbatim>\<open>float(None)\<close> raises \<open>TypeError\<close>, which the handler for
  \<open>ValueError\<close> does not catch: the answer has status 500.
\<close>

theorem predict_null_field_is_server_error:
  "predict f \<lparr>model = Some (example_classifier_no_proba 1), scaler = None, label_encoder = None\<rparr>
     (Inr (JObj [(''orbital_period'', JNull), (''transit_duration'', JInt 2),
                 (''planetary_radius'', JInt 1)])) =
   (\<lparr>body = Error (Formatted ''Prediction error: '' TypeError), status = 500\<rparr>, [])"
  by (simp add: predict_def try_block_def read_features_def required_fields_def read_field_def
        respond_def)

end
